theory Spec2Isabelle
  imports Complex_Main "HOL-Library.AList"
begin

section \<open>The CherryPy instrumentation hook\<close>

text \<open>
  A shallow embedding of \<^verbatim>\<open>opentelemetry/instrumentation/cherrypy/__init__.py\<close>:
  the tool class \<^verbatim>\<open>_InstrumentationHook\<close> with its five lifecycle callbacks, and
  \<^verbatim>\<open>CherryPyInstrumentor\<close>.

  The hook object is one Python object; its attributes are the fields of the record
  \<open>hook\<close>. An attribute that \<^verbatim>\<open>__init__\<close> never assigns does not exist until a
  callback assigns it, and reading it raises \<^verbatim>\<open>AttributeError\<close>: such an attribute is
  a field of type \<open>'a option\<close>, \<open>None\<close> meaning "not set". Where the Python value may
  itself be \<^verbatim>\<open>None\<close> (the token, the exception) the field is an option of an option.

  What a callback reads from the framework and the interpreter
  (\<^verbatim>\<open>cherrypy.serving\<close>, \<^verbatim>\<open>sys.exc_info()\<close>, the two clocks) is thread-local and is
  the record \<open>thread_state\<close>, passed in. What a callback does to the telemetry API is
  the list of \<open>event\<close>s it returns, in the order of the calls.

  A callback that returns gives \<open>Inr\<close> of the hook object, the thread state and the
  calls it made. A callback that raises gives \<open>Inl\<close> of the exception together with the
  hook object, the thread state and the calls made up to the raise.
\<close>

subsection \<open>Values\<close>

datatype attr_value = Attr_str string | Attr_int int

text \<open>A Python dict, in insertion order.\<close>

type_synonym attrs = "(string \<times> attr_value) list"
type_synonym environ = "(string \<times> string) list"
type_synonym headers = "(string \<times> string) list"

text \<open>Objects passed through \<^verbatim>\<open>**kwargs\<close>: providers, user callbacks, strings.\<close>

datatype pyobj = Provider string | Callback string | Str string

record pyexc =
  exc_type :: string
  exc_message :: string
  exc_traceback :: "nat option"

datatype error = AttributeError string | ValueError string

datatype span_kind = INTERNAL | SERVER | CLIENT | PRODUCER | CONSUMER

record otel_span =
  span_name :: string
  span_start_time :: nat
  kind :: span_kind
  is_recording :: bool

type_synonym token = nat

text \<open>
  \<^verbatim>\<open>cherrypy.serving.response.status\<close>: \<^verbatim>\<open>None\<close> until the handler or the framework sets
  it, then an integer or a string such as \<^verbatim>\<open>'200 OK'\<close>.
\<close>

datatype pystatus = Status_None | Status_int int | Status_str string

record tracer =
  tracer_name :: string
  tracer_version :: string
  tracer_provider :: pyobj

record meter =
  meter_name :: string
  meter_version :: string
  meter_provider :: pyobj

datatype instrument_kind = Histogram | UpDownCounter

record instrument =
  instr_kind :: instrument_kind
  instr_name :: string
  instr_unit :: string
  instr_description :: string
  instr_meter :: meter

subsection \<open>The telemetry calls a callback makes\<close>

datatype event =
    Start_span tracer string nat environ
  | Call_request_hook pyobj otel_span environ
  | Counter_add instrument int attrs
  | Span_set_attribute otel_span string attr_value
  | Span_set_attributes otel_span attrs
  | Activation_enter otel_span
  | Activation_exit otel_span "(string \<times> pyexc \<times> nat option) option"
  | Context_detach token
  | Histogram_record instrument int attrs
  | Add_response_attributes otel_span pystatus headers

subsection \<open>The hook object and the thread-local state\<close>

record hook =
  otel_tracer :: tracer
  duration_histogram :: instrument
  active_requests_counter :: instrument
  request_hook :: "pyobj option"
  response_hook :: "pyobj option"
  otel_excluded_urls :: "string \<Rightarrow> bool"
  is_instrumented_by_opentelemetry :: bool
  span_attr :: "otel_span option"
  token :: "token option option"
  active_requests_count_attrs :: "attrs option"
  duration_attrs :: "attrs option"
  activation :: "otel_span option"
  start :: "real option"
  exception :: "pyexc option option"

text \<open>
  \<open>otel_excluded_urls\<close> is the \<^verbatim>\<open>url_disabled\<close> method of the \<^verbatim>\<open>ExcludeList\<close> object
  the hook holds (the object itself is always truthy). \<open>span_attr\<close> is \<^verbatim>\<open>self.span\<close>,
  and \<open>activation\<close> the context manager \<^verbatim>\<open>trace.use_span(self.span, end_on_exit=True)\<close>,
  which is determined by its span.
\<close>

record thread_state =
  wsgi_environ :: environ
  response_status :: pystatus
  response_headers :: headers
  exc_info :: "pyexc option"
  time_ns :: nat
  default_timer :: real

text \<open>
  The functions of other packages the callbacks call (\<^verbatim>\<open>opentelemetry.instrumentation.wsgi\<close>,
  \<^verbatim>\<open>opentelemetry.instrumentation.utils\<close>, the response propagator, float arithmetic,
  \<^verbatim>\<open>round\<close> and the parsing of a decimal string by \<^verbatim>\<open>int\<close>, with \<open>None\<close> for its
  \<^verbatim>\<open>ValueError\<close>) are parameters: nothing is assumed about what they compute.
\<close>

record collab =
  start_internal_or_server_span :: "tracer \<Rightarrow> string \<Rightarrow> nat \<Rightarrow> environ \<Rightarrow> otel_span \<times> token option"
  get_default_span_name :: "environ \<Rightarrow> string"
  collect_request_attributes :: "environ \<Rightarrow> attrs"
  parse_active_request_count_attrs :: "attrs \<Rightarrow> attrs"
  parse_duration_attrs :: "attrs \<Rightarrow> attrs"
  collect_custom_request_headers_attributes :: "environ \<Rightarrow> attrs"
  collect_custom_response_headers_attributes :: "headers \<Rightarrow> attrs"
  py_int :: "string \<Rightarrow> int option"
  get_global_response_propagator :: "(headers \<Rightarrow> headers) option"
  float_sub :: "real \<Rightarrow> real \<Rightarrow> real"
  float_mul :: "real \<Rightarrow> real \<Rightarrow> real"
  py_round :: "real \<Rightarrow> int"

subsection \<open>The lifecycle callbacks\<close>

definition HTTP_STATUS_CODE :: string where
  "HTTP_STATUS_CODE = ''http.status_code''"

text \<open>\<^verbatim>\<open>environ.get('PATH_INFO', '/')\<close>\<close>

definition path_info :: "environ \<Rightarrow> string" where
  "path_info environ = (case map_of environ ''PATH_INFO'' of None \<Rightarrow> ''/'' | Some p \<Rightarrow> p)"

text \<open>\<^verbatim>\<open>for key, value in attributes.items(): self.span.set_attribute(key, value)\<close>\<close>

definition set_attribute_calls :: "otel_span \<Rightarrow> attrs \<Rightarrow> event list" where
  "set_attribute_calls sp attributes = map (\<lambda>(key, v). Span_set_attribute sp key v) attributes"

text \<open>
  \<^verbatim>\<open>if self.span.is_recording() and self.span.kind == trace.SpanKind.SERVER:\<close>
  \<^verbatim>\<open>if len(custom_attributes) > 0: self.span.set_attributes(custom_attributes)\<close>
\<close>

definition custom_attribute_calls :: "otel_span \<Rightarrow> attrs \<Rightarrow> event list" where
  "custom_attribute_calls sp custom_attributes =
     (if is_recording sp \<and> kind sp = SERVER
      then (if length custom_attributes > 0 then [Span_set_attributes sp custom_attributes] else [])
      else [])"

type_synonym result =
  "(error \<times> hook \<times> thread_state \<times> event list) + (hook \<times> thread_state \<times> event list)"

definition on_start_resource_hook :: "collab \<Rightarrow> thread_state \<Rightarrow> hook \<Rightarrow> result" where
  "on_start_resource_hook c th self =
     (let environ = wsgi_environ th in
      if otel_excluded_urls self (path_info environ) then Inr (self, th, [])
      else if \<not> is_instrumented_by_opentelemetry self then Inr (self, th, [])
      else
        (let start_time = time_ns th;
             name = get_default_span_name c environ;
             started = start_internal_or_server_span c (otel_tracer self) name start_time environ;
             sp = fst started;
             tok = snd started;
             attributes = collect_request_attributes c environ;
             count_attrs = parse_active_request_count_attrs c attributes;
             dur_attrs = parse_duration_attrs c attributes
         in Inr (self\<lparr>span_attr := Some sp,
                      token := Some tok,
                      active_requests_count_attrs := Some count_attrs,
                      duration_attrs := Some dur_attrs,
                      activation := Some sp,
                      start := Some (default_timer th),
                      exception := Some None\<rparr>,
                 th,
                 [Start_span (otel_tracer self) name start_time environ]
                 @ (case request_hook self of None \<Rightarrow> [] | Some f \<Rightarrow> [Call_request_hook f sp environ])
                 @ [Counter_add (active_requests_counter self) 1 count_attrs]
                 @ (if is_recording sp
                    then set_attribute_calls sp attributes
                         @ custom_attribute_calls sp (collect_custom_request_headers_attributes c environ)
                    else [])
                 @ [Activation_enter sp])))"

definition before_finalize_hook :: "collab \<Rightarrow> thread_state \<Rightarrow> hook \<Rightarrow> result" where
  "before_finalize_hook c th self =
     (if otel_excluded_urls self (path_info (wsgi_environ th)) then Inr (self, th, [])
      else if \<not> is_instrumented_by_opentelemetry self then Inr (self, th, [])
      else (case get_global_response_propagator c of
              None \<Rightarrow> Inr (self, th, [])
            | Some inject \<Rightarrow> Inr (self, th\<lparr>response_headers := inject (response_headers th)\<rparr>, [])))"

text \<open>
  The two helpers of \<^verbatim>\<open>opentelemetry.instrumentation.wsgi\<close> that read the response
  status both begin with \<^verbatim>\<open>status_code, _ = status.split(" ", 1)\<close>. On \<^verbatim>\<open>None\<close> or an
  integer that raises \<^verbatim>\<open>AttributeError\<close>, on a string without a space
  \<^verbatim>\<open>ValueError\<close>; otherwise \<open>status_code\<close> is the text before the first space.
\<close>

definition split_status :: "pystatus \<Rightarrow> error + string" where
  "split_status status =
     (case status of
        Status_None \<Rightarrow> Inl (AttributeError ''split'')
      | Status_int n \<Rightarrow> Inl (AttributeError ''split'')
      | Status_str s \<Rightarrow>
          (if CHR '' '' \<in> set s then Inr (takeWhile (\<lambda>ch. ch \<noteq> CHR '' '') s)
           else Inl (ValueError ''not enough values to unpack'')))"

text \<open>
  \<^verbatim>\<open>_parse_status_code\<close> returns \<^verbatim>\<open>int(status_code)\<close>, or \<^verbatim>\<open>None\<close> when that is not a
  number. \<^verbatim>\<open>add_response_attributes\<close> returns at once for a span that is not recording;
  otherwise it splits the status and then sets attributes and status on the span. Its
  calls on the span are the library's; the event \<open>Add_response_attributes\<close> stands for
  the call, and \<open>add_response_attributes_raises\<close> tells whether it raises.
\<close>

definition parse_status_code :: "collab \<Rightarrow> pystatus \<Rightarrow> error + int option" where
  "parse_status_code c status =
     (case split_status status of Inl e \<Rightarrow> Inl e | Inr code \<Rightarrow> Inr (py_int c code))"

definition add_response_attributes_raises :: "otel_span \<Rightarrow> pystatus \<Rightarrow> error option" where
  "add_response_attributes_raises sp status =
     (if is_recording sp
      then (case split_status status of Inl e \<Rightarrow> Some e | Inr code \<Rightarrow> None)
      else None)"

definition on_end_resource_hook :: "collab \<Rightarrow> thread_state \<Rightarrow> hook \<Rightarrow> result" where
  "on_end_resource_hook c th self =
     (if otel_excluded_urls self (path_info (wsgi_environ th)) then Inr (self, th, [])
      else if \<not> is_instrumented_by_opentelemetry self then Inr (self, th, [])
      else (case span_attr self of
              None \<Rightarrow> Inl (AttributeError ''span'', self, th, [])
            | Some sp \<Rightarrow>
      (let called = [Add_response_attributes sp (response_status th) (response_headers th)]
       in case add_response_attributes_raises sp (response_status th) of
              Some e \<Rightarrow> Inl (e, self, th, called)
            | None \<Rightarrow>
      (case parse_status_code c (response_status th) of
              Inl e \<Rightarrow> Inl (e, self, th, called)
            | Inr None \<Rightarrow>
               Inr (self, th,
                    called @ custom_attribute_calls sp
                      (collect_custom_response_headers_attributes c (response_headers th)))
            | Inr (Some status_code) \<Rightarrow>
      (case duration_attrs self of
              None \<Rightarrow> Inl (AttributeError ''duration_attrs'', self, th, called)
            | Some d \<Rightarrow>
               Inr (self\<lparr>duration_attrs :=
                            Some (AList.update HTTP_STATUS_CODE (Attr_int status_code) d)\<rparr>,
                    th,
                    called @ custom_attribute_calls sp
                      (collect_custom_response_headers_attributes c (response_headers th))))))))"

definition after_error_response_hook :: "collab \<Rightarrow> thread_state \<Rightarrow> hook \<Rightarrow> result" where
  "after_error_response_hook c th self =
     (if otel_excluded_urls self (path_info (wsgi_environ th)) then Inr (self, th, [])
      else if \<not> is_instrumented_by_opentelemetry self then Inr (self, th, [])
      else Inr (self\<lparr>exception := Some (exc_info th)\<rparr>, th, []))"

text \<open>
  The arguments of \<^verbatim>\<open>self.activation.__exit__\<close>: \<^verbatim>\<open>(None, None, None)\<close> is \<open>None\<close>,
  an exception \<open>e\<close> gives \<^verbatim>\<open>(type(e), e, getattr(e, "__traceback__", None))\<close>.
\<close>

definition exit_args :: "pyexc option \<Rightarrow> (string \<times> pyexc \<times> nat option) option" where
  "exit_args x = (case x of None \<Rightarrow> None | Some e \<Rightarrow> Some (exc_type e, e, exc_traceback e))"

text \<open>\<^verbatim>\<open>max(round((default_timer() - self.start) * 1000), 0)\<close>\<close>

definition duration_ms :: "collab \<Rightarrow> real \<Rightarrow> real \<Rightarrow> int" where
  "duration_ms c now started = max (py_round c (float_mul c (float_sub c now started) 1000)) 0"

definition on_end_request_hook :: "collab \<Rightarrow> thread_state \<Rightarrow> hook \<Rightarrow> result" where
  "on_end_request_hook c th self =
     (if otel_excluded_urls self (path_info (wsgi_environ th)) then Inr (self, th, [])
      else if \<not> is_instrumented_by_opentelemetry self then Inr (self, th, [])
      else (case exception self of
              None \<Rightarrow> Inl (AttributeError ''exception'', self, th, [])
            | Some exc \<Rightarrow>
      (case activation self of
              None \<Rightarrow> Inl (AttributeError ''activation'', self, th, [])
            | Some act \<Rightarrow>
      (let exited = [Activation_exit act (exit_args exc)]
       in case token self of
              None \<Rightarrow> Inl (AttributeError ''token'', self, th, exited)
            | Some tok \<Rightarrow>
      (let detached = exited @ (case tok of None \<Rightarrow> [] | Some t \<Rightarrow> [Context_detach t])
       in case start self of
              None \<Rightarrow> Inl (AttributeError ''start'', self, th, detached)
            | Some started \<Rightarrow>
      (case duration_attrs self of
              None \<Rightarrow> Inl (AttributeError ''duration_attrs'', self, th, detached)
            | Some d \<Rightarrow>
      (let recorded = detached @ [Histogram_record (duration_histogram self)
                                    (duration_ms c (default_timer th) started) d]
       in case active_requests_count_attrs self of
              None \<Rightarrow> Inl (AttributeError ''active_requests_count_attrs'', self, th, recorded)
            | Some a \<Rightarrow>
               Inr (self, th,
                    recorded @ [Counter_add (active_requests_counter self) (- 1) a]))))))))"

datatype callback =
  OnStartResource | BeforeFinalize | OnEndResource | AfterErrorResponse | OnEndRequest

fun run_hook :: "collab \<Rightarrow> callback \<Rightarrow> thread_state \<Rightarrow> hook \<Rightarrow> result" where
  "run_hook c OnStartResource th self = on_start_resource_hook c th self"
| "run_hook c BeforeFinalize th self = before_finalize_hook c th self"
| "run_hook c OnEndResource th self = on_end_resource_hook c th self"
| "run_hook c AfterErrorResponse th self = after_error_response_hook c th self"
| "run_hook c OnEndRequest th self = on_end_request_hook c th self"


subsection \<open>Running callbacks in sequence\<close>

text \<open>The hook object a callback leaves, the calls it made, and what it raised.\<close>

definition hook_after :: "result \<Rightarrow> hook" where
  "hook_after r = (case r of Inl x \<Rightarrow> fst (snd x) | Inr y \<Rightarrow> fst y)"

definition calls_of :: "result \<Rightarrow> event list" where
  "calls_of r = (case r of Inl x \<Rightarrow> snd (snd (snd x)) | Inr y \<Rightarrow> snd (snd y))"

definition raised_by :: "result \<Rightarrow> error list" where
  "raised_by r = (case r of Inl x \<Rightarrow> [fst x] | Inr y \<Rightarrow> [])"

text \<open>
  The framework invokes the callbacks one after another on the same hook object; before
  each call the thread-local state is what the framework made of it, so each step
  carries the thread state its callback sees. When a callback raises, the framework
  handles the exception and goes on to the later lifecycle points (an exception out of
  the response-ready hooks leads to the error response and then to request end): the
  next callback runs on the hook object as the raise left it. A run gives the final hook
  object, the calls made and the exceptions raised, in order.
\<close>

fun run_steps ::
  "collab \<Rightarrow> (callback \<times> thread_state) list \<Rightarrow> hook \<Rightarrow> hook \<times> event list \<times> error list" where
  "run_steps c [] self = (self, [], [])"
| "run_steps c (step # rest) self =
     (let r = run_hook c (fst step) (snd step) self;
          q = run_steps c rest (hook_after r)
      in (fst q, calls_of r @ fst (snd q), raised_by r @ snd (snd q)))"

text \<open>A request is eligible when its path is not excluded and the hook is enabled.\<close>

definition eligible :: "hook \<Rightarrow> thread_state \<Rightarrow> bool" where
  "eligible self th =
     (\<not> otel_excluded_urls self (path_info (wsgi_environ th))
      \<and> is_instrumented_by_opentelemetry self)"

text \<open>
  The callbacks between request start and request end, and the steps of one request:
  every step is one of those callbacks, and sees an eligible request.
\<close>

fun is_mid :: "callback \<Rightarrow> bool" where
  "is_mid BeforeFinalize = True"
| "is_mid OnEndResource = True"
| "is_mid AfterErrorResponse = True"
| "is_mid cb = False"

fun mid_steps :: "hook \<Rightarrow> (callback \<times> thread_state) list \<Rightarrow> bool" where
  "mid_steps self [] = True"
| "mid_steps self (step # rest) = (is_mid (fst step) \<and> eligible self (snd step) \<and> mid_steps self rest)"

definition lifecycle ::
  "thread_state \<Rightarrow> (callback \<times> thread_state) list \<Rightarrow> thread_state \<Rightarrow> (callback \<times> thread_state) list" where
  "lifecycle th0 mids th1 = (OnStartResource, th0) # mids @ [(OnEndRequest, th1)]"

text \<open>The exception held after the steps: the one the last error callback observed.\<close>

fun captured :: "pyexc option \<Rightarrow> (callback \<times> thread_state) list \<Rightarrow> pyexc option" where
  "captured e [] = e"
| "captured e (step # rest) =
     captured (if fst step = AfterErrorResponse then exc_info (snd step) else e) rest"

text \<open>The calls on the two metric instruments and the span deactivations among the events.\<close>

fun counter_adds :: "event list \<Rightarrow> (instrument \<times> int \<times> attrs) list" where
  "counter_adds [] = []"
| "counter_adds (Counter_add i n a # evs) = (i, n, a) # counter_adds evs"
| "counter_adds (ev # evs) = counter_adds evs"

fun histogram_records :: "event list \<Rightarrow> (instrument \<times> int \<times> attrs) list" where
  "histogram_records [] = []"
| "histogram_records (Histogram_record i n a # evs) = (i, n, a) # histogram_records evs"
| "histogram_records (ev # evs) = histogram_records evs"

fun activation_exits :: "event list \<Rightarrow> (otel_span \<times> (string \<times> pyexc \<times> nat option) option) list" where
  "activation_exits [] = []"
| "activation_exits (Activation_exit sp x # evs) = (sp, x) # activation_exits evs"
| "activation_exits (ev # evs) = activation_exits evs"

text \<open>What request start computes from the request environment.\<close>

definition started_span :: "collab \<Rightarrow> hook \<Rightarrow> thread_state \<Rightarrow> otel_span" where
  "started_span c self th =
     fst (start_internal_or_server_span c (otel_tracer self)
            (get_default_span_name c (wsgi_environ th)) (time_ns th) (wsgi_environ th))"

definition start_count_attrs :: "collab \<Rightarrow> thread_state \<Rightarrow> attrs" where
  "start_count_attrs c th =
     parse_active_request_count_attrs c (collect_request_attributes c (wsgi_environ th))"


subsection \<open>Construction\<close>

text \<open>
  What \<^verbatim>\<open>__init__\<close> reads from outside the class: the process-wide providers, the
  package's \<^verbatim>\<open>__version__\<close>, the exclusion list parsed from the environment at import
  time, and the parser of an explicit exclusion list.
\<close>

record globals =
  global_tracer_provider :: pyobj
  global_meter_provider :: pyobj
  package_version :: string
  excluded_urls_from_env :: "string \<Rightarrow> bool"
  parse_excluded_urls :: "pyobj \<Rightarrow> string \<Rightarrow> bool"

definition MODULE_NAME :: string where
  "MODULE_NAME = ''opentelemetry.instrumentation.cherrypy''"

definition TOOL_NAME :: string where
  "TOOL_NAME = ''opentelemetry-cherrypy-tool''"

text \<open>\<^verbatim>\<open>kwargs.pop(key, None)\<close>: the value, and the dict without the key.\<close>

definition pop :: "string \<Rightarrow> (string \<times> pyobj) list \<Rightarrow> pyobj option \<times> (string \<times> pyobj) list" where
  "pop key kwargs = (map_of kwargs key, AList.delete key kwargs)"

text \<open>
  \<^verbatim>\<open>trace.get_tracer\<close> and \<^verbatim>\<open>metrics.get_meter\<close> use the provider they are given, and
  the process-wide global provider when they are given \<^verbatim>\<open>None\<close>.
\<close>

definition get_tracer :: "globals \<Rightarrow> string \<Rightarrow> string \<Rightarrow> pyobj option \<Rightarrow> tracer" where
  "get_tracer g name ver provider =
     \<lparr>tracer_name = name, tracer_version = ver,
      tracer_provider = (case provider of None \<Rightarrow> global_tracer_provider g | Some p \<Rightarrow> p)\<rparr>"

definition get_meter :: "globals \<Rightarrow> string \<Rightarrow> string \<Rightarrow> pyobj option \<Rightarrow> meter" where
  "get_meter g name ver provider =
     \<lparr>meter_name = name, meter_version = ver,
      meter_provider = (case provider of None \<Rightarrow> global_meter_provider g | Some p \<Rightarrow> p)\<rparr>"

definition create_histogram :: "meter \<Rightarrow> string \<Rightarrow> string \<Rightarrow> string \<Rightarrow> instrument" where
  "create_histogram m name u description =
     \<lparr>instr_kind = Histogram, instr_name = name, instr_unit = u,
      instr_description = description, instr_meter = m\<rparr>"

definition create_up_down_counter :: "meter \<Rightarrow> string \<Rightarrow> string \<Rightarrow> string \<Rightarrow> instrument" where
  "create_up_down_counter m name u description =
     \<lparr>instr_kind = UpDownCounter, instr_name = name, instr_unit = u,
      instr_description = description, instr_meter = m\<rparr>"

definition hook_init :: "globals \<Rightarrow> (string \<times> pyobj) list \<Rightarrow> hook" where
  "hook_init g kwargs =
     (let p1 = pop ''tracer_provider'' kwargs;
          p2 = pop ''metr_provider'' (snd p1);
          otel_meter = get_meter g MODULE_NAME (package_version g) (fst p2);
          p3 = pop ''request_hook'' (snd p2);
          p4 = pop ''response_hook'' (snd p3);
          p5 = pop ''excluded_urls'' (snd p4)
      in \<lparr>otel_tracer = get_tracer g MODULE_NAME (package_version g) (fst p1),
          duration_histogram =
            create_histogram otel_meter ''http.server.duration'' ''ms''
              ''measures the duration of the inbound HTTP request'',
          active_requests_counter =
            create_up_down_counter otel_meter ''http.server.active_requests'' ''requests''
              ''measures the number of concurrent HTTP requests that are currently in-flight'',
          request_hook = fst p3,
          response_hook = fst p4,
          otel_excluded_urls =
            (case fst p5 of None \<Rightarrow> excluded_urls_from_env g | Some x \<Rightarrow> parse_excluded_urls g x),
          is_instrumented_by_opentelemetry = True,
          span_attr = None, token = None, active_requests_count_attrs = None,
          duration_attrs = None, activation = None, start = None, exception = None\<rparr>)"

subsection \<open>The instrumentor\<close>

text \<open>
  \<^verbatim>\<open>cherrypy.expose(func=None, alias=None)\<close> is called with a handler (a function, a
  method or a class), with nothing, or with some other object. It returns the exposed
  handler or a decorator. The wrapper installed by \<^verbatim>\<open>_instrument\<close> can also return
  itself.

  The framework's \<^verbatim>\<open>expose\<close> registers an alias in the local namespace of the frame
  that called it (\<^verbatim>\<open>sys._getframe(1).f_locals\<close>), so what it does depends on its caller:
  the body of the class being defined, when the application calls it, or the frame of
  \<^verbatim>\<open>_Instrumented_expose\<close>, when the wrapper calls it. The caller is an argument of
  the model of \<^verbatim>\<open>expose\<close>, and the namespaces are a state \<open>'s\<close> that it transforms.
\<close>

datatype 'h func_arg = Func_None | Decoratable 'h | Other_object string

datatype frame = Class_body | Wrapper_frame

datatype ('h, 's) expose_result =
    Exposed 'h
  | Expose_callable "'h \<Rightarrow> 's \<Rightarrow> 'h \<times> 's"
  | The_Instrumented_expose

text \<open>
  The inner function \<^verbatim>\<open>_Instrumented_expose_callable\<close>, and the wrapper
  \<^verbatim>\<open>_Instrumented_expose\<close>. \<open>tool_decorator\<close> is \<^verbatim>\<open>self.otel_tool()\<close> and
  \<open>original_expose\<close> the framework's \<^verbatim>\<open>cherrypy.expose\<close> saved at installation.
\<close>

definition Instrumented_expose_callable ::
  "('h \<Rightarrow> 'h) \<Rightarrow> ('h \<Rightarrow> 's \<Rightarrow> 'h \<times> 's) \<Rightarrow> 'h \<Rightarrow> 's \<Rightarrow> 'h \<times> 's" where
  "Instrumented_expose_callable tool_decorator expose_callable func s =
     expose_callable (tool_decorator func) s"

text \<open>
  \<^verbatim>\<open>if func is None or not isinstance(func, decoratable_types):\<close> is the branch of
  every argument but a handler. There \<^verbatim>\<open>self.original_expose(func, alias)\<close> is called
  and \<^verbatim>\<open>_Instrumented_expose_callable\<close> is defined, and what is returned is
  \<^verbatim>\<open>_Instrumented_expose\<close>. In both branches the framework's \<^verbatim>\<open>expose\<close> is called
  from the frame of the wrapper.
\<close>

definition Instrumented_expose ::
  "('h \<Rightarrow> 'h) \<Rightarrow> (frame \<Rightarrow> 'h func_arg \<Rightarrow> string option \<Rightarrow> 's \<Rightarrow> ('h, 's) expose_result \<times> 's)
     \<Rightarrow> 'h func_arg \<Rightarrow> string option \<Rightarrow> 's \<Rightarrow> ('h, 's) expose_result \<times> 's" where
  "Instrumented_expose tool_decorator original_expose func alias s =
     (case func of
        Decoratable f \<Rightarrow> original_expose Wrapper_frame (Decoratable (tool_decorator f)) alias s
      | _ \<Rightarrow> (The_Instrumented_expose, snd (original_expose Wrapper_frame func alias s)))"

text \<open>
  Calling what \<^verbatim>\<open>expose\<close> returned on a handler, as \<^verbatim>\<open>@cherrypy.expose(alias=...)\<close>
  above a handler does. (A handler is not called at decoration time: \<open>None\<close>.)
\<close>

definition apply_result ::
  "('h \<Rightarrow> 'h) \<Rightarrow> (frame \<Rightarrow> 'h func_arg \<Rightarrow> string option \<Rightarrow> 's \<Rightarrow> ('h, 's) expose_result \<times> 's)
     \<Rightarrow> ('h, 's) expose_result \<Rightarrow> 'h \<Rightarrow> 's \<Rightarrow> (('h, 's) expose_result \<times> 's) option" where
  "apply_result tool_decorator original_expose r func s =
     (case r of
        Exposed h \<Rightarrow> None
      | Expose_callable d \<Rightarrow> Some (Exposed (fst (d func s)), snd (d func s))
      | The_Instrumented_expose \<Rightarrow>
          Some (Instrumented_expose tool_decorator original_expose (Decoratable func) None s))"

text \<open>
  The state \<^verbatim>\<open>_instrument\<close> and \<^verbatim>\<open>_uninstrument\<close> work on: the tool object, which
  function \<^verbatim>\<open>cherrypy.expose\<close> is, and the names set on \<^verbatim>\<open>cherrypy.tools\<close>.
\<close>

datatype expose_fn = Framework_expose | Instrumented_over expose_fn

record instrumentor =
  original_expose :: expose_fn
  otel_tool :: hook
  cherrypy_expose :: expose_fn
  cherrypy_tools :: "string list"

definition instrument ::
  "globals \<Rightarrow> (string \<times> pyobj) list \<Rightarrow> expose_fn \<Rightarrow> string list \<Rightarrow> instrumentor" where
  "instrument g kwargs expose tools =
     \<lparr>original_expose = expose,
      otel_tool = hook_init g kwargs,
      cherrypy_expose = Instrumented_over expose,
      cherrypy_tools = List.insert TOOL_NAME tools\<rparr>"

definition uninstrument :: "instrumentor \<Rightarrow> instrumentor" where
  "uninstrument s = s\<lparr>otel_tool := (otel_tool s)\<lparr>is_instrumented_by_opentelemetry := False\<rparr>\<rparr>"

subsection \<open>Two requests on one hook object\<close>

text \<open>
  The tool object is one per process, and the framework serves requests on several
  threads. A schedule is a sequence of callback invocations, each for one of two
  requests with the thread-local state of that request's thread; the events are
  tagged with the request whose callback made the call.
\<close>

datatype request_id = Request_A | Request_B

fun run_schedule ::
  "collab \<Rightarrow> (request_id \<times> callback \<times> thread_state) list \<Rightarrow> hook
     \<Rightarrow> hook \<times> (request_id \<times> event) list \<times> (request_id \<times> error) list" where
  "run_schedule c [] self = (self, [], [])"
| "run_schedule c (s # rest) self =
     (let r = run_hook c (fst (snd s)) (snd (snd s)) self;
          q = run_schedule c rest (hook_after r)
      in (fst q,
          map (Pair (fst s)) (calls_of r) @ fst (snd q),
          map (Pair (fst s)) (raised_by r) @ snd (snd q)))"

text \<open>The calls made, and the exceptions raised, by the callbacks of one request.\<close>

definition events_of ::
  "request_id \<Rightarrow> hook \<times> (request_id \<times> event) list \<times> (request_id \<times> error) list \<Rightarrow> event list" where
  "events_of r run = map snd (filter (\<lambda>x. fst x = r) (fst (snd run)))"

definition errors_of ::
  "request_id \<Rightarrow> hook \<times> (request_id \<times> event) list \<times> (request_id \<times> error) list \<Rightarrow> error list" where
  "errors_of r run = map snd (filter (\<lambda>x. fst x = r) (snd (snd run)))"

definition alone ::
  "request_id \<Rightarrow> (request_id \<times> callback \<times> thread_state) list
     \<Rightarrow> (request_id \<times> callback \<times> thread_state) list" where
  "alone r sched = filter (\<lambda>s. fst s = r) sched"

text \<open>
  The callbacks of each request make the same calls, and raise the same exceptions, in
  the schedule as they do when the request is handled alone: no callback reads what a
  callback of the other request wrote.
\<close>

definition isolated :: "collab \<Rightarrow> hook \<Rightarrow> (request_id \<times> callback \<times> thread_state) list \<Rightarrow> bool" where
  "isolated c self sched =
     (events_of Request_A (run_schedule c sched self)
        = events_of Request_A (run_schedule c (alone Request_A sched) self)
      \<and> errors_of Request_A (run_schedule c sched self)
        = errors_of Request_A (run_schedule c (alone Request_A sched) self)
      \<and> events_of Request_B (run_schedule c sched self)
        = events_of Request_B (run_schedule c (alone Request_B sched) self)
      \<and> errors_of Request_B (run_schedule c sched self)
        = errors_of Request_B (run_schedule c (alone Request_B sched) self))"

definition tagged ::
  "request_id \<Rightarrow> (callback \<times> thread_state) list \<Rightarrow> (request_id \<times> callback \<times> thread_state) list" where
  "tagged r steps = map (Pair r) steps"

text \<open>
  The callbacks of request \<open>r\<close> within a schedule: its request start, then the steps
  \<open>mids\<close> (of this and of other requests), then its request end.
\<close>

definition request_run ::
  "request_id \<Rightarrow> thread_state \<Rightarrow> (request_id \<times> callback \<times> thread_state) list \<Rightarrow> thread_state
     \<Rightarrow> (request_id \<times> callback \<times> thread_state) list" where
  "request_run r th0 mids th1 = (r, OnStartResource, th0) # mids @ [(r, OnEndRequest, th1)]"

text \<open>
  \<open>undisturbed self r mids\<close>: between the start and the end of request \<open>r\<close> no other
  eligible request is started. The steps of \<open>r\<close> itself are callbacks between start
  and end; the steps of other requests are any callbacks but the start of an eligible
  request.
\<close>

fun undisturbed :: "hook \<Rightarrow> request_id \<Rightarrow> (request_id \<times> callback \<times> thread_state) list \<Rightarrow> bool" where
  "undisturbed self r [] = True"
| "undisturbed self r (s # rest) =
     ((if fst s = r then is_mid (fst (snd s))
       else if fst (snd s) = OnStartResource then \<not> eligible self (snd (snd s))
       else True)
      \<and> undisturbed self r rest)"

text \<open>
  \<open>attended self r mids\<close>: moreover every step of \<open>r\<close> sees an eligible request, and no
  other eligible request has an error observed in between.
\<close>

fun attended :: "hook \<Rightarrow> request_id \<Rightarrow> (request_id \<times> callback \<times> thread_state) list \<Rightarrow> bool" where
  "attended self r [] = True"
| "attended self r (s # rest) =
     ((if fst s = r then is_mid (fst (snd s)) \<and> eligible self (snd (snd s))
       else if fst (snd s) = OnStartResource then \<not> eligible self (snd (snd s))
       else if fst (snd s) = AfterErrorResponse then \<not> eligible self (snd (snd s))
       else True)
      \<and> attended self r rest)"

text \<open>
  The exception the hook object holds after the steps: the one the last error callback
  of an eligible request, of whichever request, stored.
\<close>

fun stored_exception ::
  "hook \<Rightarrow> pyexc option \<Rightarrow> (request_id \<times> callback \<times> thread_state) list \<Rightarrow> pyexc option" where
  "stored_exception self e [] = e"
| "stored_exception self e (s # rest) =
     stored_exception self
       (if fst (snd s) = AfterErrorResponse \<and> eligible self (snd (snd s))
        then exc_info (snd (snd s)) else e) rest"

subsection \<open>What the claims ask of a request in a schedule\<close>

text \<open>
  Request \<open>r\<close>, started with thread state \<open>th0\<close>, makes exactly two calls on the up-down
  counter: \<open>+1\<close> and \<open>-1\<close>, both with the active-request attributes computed at its
  start.
\<close>

definition counter_balanced ::
  "collab \<Rightarrow> hook \<Rightarrow> (request_id \<times> callback \<times> thread_state) list \<Rightarrow> request_id \<Rightarrow> thread_state \<Rightarrow> bool" where
  "counter_balanced c self sched r th0 =
     (counter_adds (events_of r (run_schedule c sched self))
        = [(active_requests_counter self, 1, start_count_attrs c th0),
           (active_requests_counter self, - 1, start_count_attrs c th0)])"


text \<open>
  Request \<open>r\<close>, started with thread state \<open>th0\<close> and ended with \<open>th1\<close>, records exactly
  one duration: the one between the readings of the timer at its start and its end.
\<close>

definition duration_from_own_start ::
  "collab \<Rightarrow> hook \<Rightarrow> (request_id \<times> callback \<times> thread_state) list \<Rightarrow> request_id \<Rightarrow> thread_state
     \<Rightarrow> thread_state \<Rightarrow> bool" where
  "duration_from_own_start c self sched r th0 th1 =
     (map (\<lambda>x. (fst x, fst (snd x))) (histogram_records (events_of r (run_schedule c sched self)))
        = [(duration_histogram self,
            max (py_round c (float_mul c (float_sub c (default_timer th1) (default_timer th0)) 1000)) 0)])"

subsection \<open>The state of the hook between request start and request end\<close>

text \<open>The attributes \<^verbatim>\<open>__init__\<close> assigns; no callback assigns them.\<close>

definition same_config :: "hook \<Rightarrow> hook \<Rightarrow> bool" where
  "same_config h h' =
     (otel_tracer h' = otel_tracer h \<and> duration_histogram h' = duration_histogram h
      \<and> active_requests_counter h' = active_requests_counter h
      \<and> request_hook h' = request_hook h \<and> response_hook h' = response_hook h
      \<and> otel_excluded_urls h' = otel_excluded_urls h
      \<and> is_instrumented_by_opentelemetry h' = is_instrumented_by_opentelemetry h)"

text \<open>
  \<open>in_flight h0 h sp a st e\<close>: the hook \<open>h\<close> holds the record of a started request,
  with span \<open>sp\<close>, active-request attributes \<open>a\<close>, start reading \<open>st\<close> and captured
  exception \<open>e\<close>, and is configured as \<open>h0\<close> was.
\<close>

definition in_flight :: "hook \<Rightarrow> hook \<Rightarrow> otel_span \<Rightarrow> attrs \<Rightarrow> real \<Rightarrow> pyexc option \<Rightarrow> bool" where
  "in_flight h0 h sp a st e =
     (same_config h0 h \<and> span_attr h = Some sp \<and> activation h = Some sp
      \<and> active_requests_count_attrs h = Some a \<and> start h = Some st
      \<and> exception h = Some e \<and> token h \<noteq> None \<and> duration_attrs h \<noteq> None)"

fun all_excluded :: "hook \<Rightarrow> (callback \<times> thread_state) list \<Rightarrow> bool" where
  "all_excluded self [] = True"
| "all_excluded self (step # rest) =
     (otel_excluded_urls self (path_info (wsgi_environ (snd step))) \<and> all_excluded self rest)"

subsection \<open>A concrete setting\<close>

text \<open>
  Concrete collaborators, globals and requests, on which the theorems below are
  instantiated: a tracer that starts a recording server span, request attributes made of
  the method and the target, exact arithmetic for the floats, and the exclusion of
  \<^verbatim>\<open>/ping\<close>.
\<close>

definition demo_method :: "environ \<Rightarrow> string" where
  "demo_method environ = (case map_of environ ''REQUEST_METHOD'' of None \<Rightarrow> ''GET'' | Some m \<Rightarrow> m)"

definition demo_collab :: collab where
  "demo_collab =
     \<lparr>start_internal_or_server_span =
        (\<lambda>tr name t environ.
           (\<lparr>span_name = name, span_start_time = t, kind = SERVER, is_recording = True\<rparr>, Some 7)),
      get_default_span_name = (\<lambda>environ. ''HTTP '' @ demo_method environ),
      collect_request_attributes =
        (\<lambda>environ. [(''http.method'', Attr_str (demo_method environ)),
                     (''http.target'', Attr_str (path_info environ))]),
      parse_active_request_count_attrs = filter (\<lambda>kv. fst kv = ''http.method''),
      parse_duration_attrs = (\<lambda>attributes. attributes),
      collect_custom_request_headers_attributes = (\<lambda>environ. []),
      collect_custom_response_headers_attributes = (\<lambda>hs. []),
      py_int =
        (\<lambda>code. if code = ''200'' then Some 200 else if code = ''500'' then Some 500 else None),
      get_global_response_propagator = None,
      float_sub = (\<lambda>x y. x - y),
      float_mul = (\<lambda>x y. x * y),
      py_round = round\<rparr>"

definition demo_globals :: globals where
  "demo_globals =
     \<lparr>global_tracer_provider = Provider ''global tracer provider'',
      global_meter_provider = Provider ''global meter provider'',
      package_version = ''0.1'',
      excluded_urls_from_env = (\<lambda>url. url = ''/ping''),
      parse_excluded_urls = (\<lambda>patterns url. False)\<rparr>"

definition demo_thread :: "string \<Rightarrow> string \<Rightarrow> pystatus \<Rightarrow> pyexc option \<Rightarrow> real \<Rightarrow> thread_state" where
  "demo_thread method path status exc now =
     \<lparr>wsgi_environ = [(''REQUEST_METHOD'', method), (''PATH_INFO'', path)],
      response_status = status,
      response_headers = [],
      exc_info = exc,
      time_ns = 0,
      default_timer = now\<rparr>"

definition demo_exc :: pyexc where
  "demo_exc = \<lparr>exc_type = ''ValueError'', exc_message = ''boom'', exc_traceback = Some 1\<rparr>"

text \<open>
  Two requests whose callbacks interleave: \<^verbatim>\<open>GET /hello\<close> starts, \<^verbatim>\<open>POST /user\<close>
  starts on another thread, then each ends. In the second schedule the handler of
  \<^verbatim>\<open>GET /hello\<close> raises and the error is observed before \<^verbatim>\<open>POST /user\<close> starts.
\<close>

definition demo_interleaved :: "(request_id \<times> callback \<times> thread_state) list" where
  "demo_interleaved =
     [(Request_A, OnStartResource, demo_thread ''GET'' ''/hello'' Status_None None 10),
      (Request_B, OnStartResource, demo_thread ''POST'' ''/user'' Status_None None 11),
      (Request_A, OnEndRequest, demo_thread ''GET'' ''/hello'' (Status_str ''200 OK'') None 12),
      (Request_B, OnEndRequest, demo_thread ''POST'' ''/user'' (Status_str ''200 OK'') None 13)]"


text \<open>
  A stand-in for the framework's \<^verbatim>\<open>cherrypy.expose\<close>. It marks the handler exposed and,
  when an alias is given, binds the alias (dots replaced by underscores) to the handler
  in the namespace of the frame that called \<^verbatim>\<open>expose\<close>. It returns the handler when it
  is given one and the decorator \<^verbatim>\<open>expose_\<close> otherwise.
\<close>

record handler =
  handler_name :: string
  tool_on :: bool
  exposed :: bool

type_synonym namespaces = "frame \<Rightarrow> (string \<times> handler) list"

definition demo_tool_decorator :: "handler \<Rightarrow> handler" where
  "demo_tool_decorator f = f\<lparr>tool_on := True\<rparr>"

definition demo_expose_inner ::
  "frame \<Rightarrow> string option \<Rightarrow> handler \<Rightarrow> namespaces \<Rightarrow> handler \<times> namespaces" where
  "demo_expose_inner parents alias f ns =
     (f\<lparr>exposed := True\<rparr>,
      (case alias of
         None \<Rightarrow> ns
       | Some a \<Rightarrow>
           ns(parents :=
                AList.update (map (\<lambda>ch. if ch = CHR ''.'' then CHR ''_'' else ch) a)
                  (f\<lparr>exposed := True\<rparr>) (ns parents))))"

definition demo_expose ::
  "frame \<Rightarrow> handler func_arg \<Rightarrow> string option \<Rightarrow> namespaces
     \<Rightarrow> (handler, namespaces) expose_result \<times> namespaces" where
  "demo_expose caller func alias ns =
     (case func of
        Decoratable f \<Rightarrow>
          (Exposed (fst (demo_expose_inner caller alias f ns)),
           snd (demo_expose_inner caller alias f ns))
      | Func_None \<Rightarrow> (Expose_callable (demo_expose_inner caller alias), ns)
      | Other_object a \<Rightarrow> (Expose_callable (demo_expose_inner caller (Some a)), ns))"

definition demo_handler :: handler where
  "demo_handler = \<lparr>handler_name = ''hello'', tool_on = False, exposed = False\<rparr>"

definition no_bindings :: namespaces where
  "no_bindings = (\<lambda>fr. [])"

section \<open>Properties\<close>

subsection \<open>The projections of the event list\<close>

lemma counter_adds_append: "counter_adds (xs @ ys) = counter_adds xs @ counter_adds ys"
  by (induction xs rule: counter_adds.induct) simp_all

lemma histogram_records_append:
  "histogram_records (xs @ ys) = histogram_records xs @ histogram_records ys"
  by (induction xs rule: histogram_records.induct) simp_all

lemma activation_exits_append:
  "activation_exits (xs @ ys) = activation_exits xs @ activation_exits ys"
  by (induction xs rule: activation_exits.induct) simp_all

lemma set_attribute_calls_quiet:
  "counter_adds (set_attribute_calls sp xs) = []"
  "histogram_records (set_attribute_calls sp xs) = []"
  "activation_exits (set_attribute_calls sp xs) = []"
  by (induction xs) (simp_all add: set_attribute_calls_def split: prod.splits)

lemma custom_attribute_calls_quiet:
  "counter_adds (custom_attribute_calls sp xs) = []"
  "histogram_records (custom_attribute_calls sp xs) = []"
  "activation_exits (custom_attribute_calls sp xs) = []"
  by (simp_all add: custom_attribute_calls_def)

subsection \<open>One callback on a started request\<close>

lemma eligible_config: "same_config h0 h \<Longrightarrow> eligible h th = eligible h0 th"
  by (simp add: same_config_def eligible_def)

lemma in_flight_config: "in_flight h0 h sp a st e \<Longrightarrow> same_config h0 h"
  by (simp add: in_flight_def)

lemma start_step:
  assumes "eligible h th"
  shows "\<exists>h' evs. on_start_resource_hook c th h = Inr (h', th, evs)
           \<and> in_flight h h' (started_span c h th) (start_count_attrs c th) (default_timer th) None
           \<and> counter_adds evs = [(active_requests_counter h, 1, start_count_attrs c th)]
           \<and> histogram_records evs = []
           \<and> activation_exits evs = []"
  using assms
  by (simp add: on_start_resource_hook_def eligible_def Let_def in_flight_def same_config_def
      started_span_def start_count_attrs_def counter_adds_append histogram_records_append
      activation_exits_append set_attribute_calls_quiet custom_attribute_calls_quiet
      split: option.splits)

lemma ineligible_noop:
  "\<not> eligible h th \<Longrightarrow> run_hook c cb th h = Inr (h, th, [])"
  by (cases cb)
     (auto simp: on_start_resource_hook_def before_finalize_hook_def on_end_resource_hook_def
        after_error_response_hook_def on_end_request_hook_def Let_def eligible_def)

lemma before_finalize_step:
  "hook_after (before_finalize_hook c th h) = h" "calls_of (before_finalize_hook c th h) = []"
  by (simp_all add: before_finalize_hook_def hook_after_def calls_of_def split: option.splits)

lemma on_end_resource_step:
  assumes "in_flight h0 h sp a st e"
  shows "in_flight h0 (hook_after (on_end_resource_hook c th h)) sp a st e"
    and "counter_adds (calls_of (on_end_resource_hook c th h)) = []"
    and "histogram_records (calls_of (on_end_resource_hook c th h)) = []"
    and "activation_exits (calls_of (on_end_resource_hook c th h)) = []"
  using assms
  by (auto simp: on_end_resource_hook_def in_flight_def same_config_def Let_def hook_after_def
      calls_of_def counter_adds_append histogram_records_append activation_exits_append
      custom_attribute_calls_quiet split: option.splits sum.splits)

lemma after_error_response_step:
  assumes "in_flight h0 h sp a st e"
  shows "in_flight h0 (hook_after (after_error_response_hook c th h)) sp a st
           (if eligible h0 th then exc_info th else e)"
    and "calls_of (after_error_response_hook c th h) = []"
  using assms
  by (auto simp: after_error_response_hook_def in_flight_def same_config_def eligible_def
      hook_after_def calls_of_def)

lemma end_step:
  assumes "eligible h0 th" and "in_flight h0 h sp a st e"
  shows "\<exists>evs d. on_end_request_hook c th h = Inr (h, th, evs)
           \<and> duration_attrs h = Some d
           \<and> counter_adds evs = [(active_requests_counter h0, - 1, a)]
           \<and> histogram_records evs = [(duration_histogram h0, duration_ms c (default_timer th) st, d)]
           \<and> activation_exits evs = [(sp, exit_args e)]"
  using assms
  by (auto simp: on_end_request_hook_def in_flight_def same_config_def eligible_def Let_def
      counter_adds_append histogram_records_append activation_exits_append
      split: option.splits)

lemma on_end_request_keeps_hook:
  "hook_after (on_end_request_hook c th h) = h"
  by (simp add: on_end_request_hook_def hook_after_def Let_def split: option.splits)

lemma other_step_hook:
  assumes "in_flight h0 h sp a st e"
    and "if cb = OnStartResource then \<not> eligible h0 th else True"
  shows "in_flight h0 (hook_after (run_hook c cb th h)) sp a st
           (if cb = AfterErrorResponse \<and> eligible h0 th then exc_info th else e)"
proof (cases cb)
  case OnStartResource
  with assms have "\<not> eligible h th"
    using eligible_config [OF in_flight_config [OF assms(1)]] by simp
  from ineligible_noop [OF this] OnStartResource assms(1) show ?thesis
    by (simp add: hook_after_def)
next
  case BeforeFinalize
  with assms(1) show ?thesis by (simp add: before_finalize_step)
next
  case OnEndResource
  with on_end_resource_step(1) [OF assms(1)] show ?thesis by simp
next
  case AfterErrorResponse
  with after_error_response_step(1) [OF assms(1)] show ?thesis by simp
next
  case OnEndRequest
  with assms(1) show ?thesis by (simp add: on_end_request_keeps_hook)
qed

lemma other_step_calls:
  assumes "in_flight h0 h sp a st e" and "is_mid cb"
  shows "counter_adds (calls_of (run_hook c cb th h)) = []"
    and "histogram_records (calls_of (run_hook c cb th h)) = []"
    and "activation_exits (calls_of (run_hook c cb th h)) = []"
  using assms on_end_resource_step(2-4) [OF assms(1)] after_error_response_step(2) [OF assms(1)]
  by (cases cb; simp add: before_finalize_step)+


subsection \<open>The callbacks of one request within a schedule\<close>

lemma run_schedule_append:
  "run_schedule c (xs @ ys) h =
     (fst (run_schedule c ys (fst (run_schedule c xs h))),
      fst (snd (run_schedule c xs h)) @ fst (snd (run_schedule c ys (fst (run_schedule c xs h)))),
      snd (snd (run_schedule c xs h)) @ snd (snd (run_schedule c ys (fst (run_schedule c xs h)))))"
  by (induction xs arbitrary: h) (simp_all add: Let_def)

lemma events_of_step:
  "events_of r (run_schedule c (s # rest) h) =
     (if fst s = r then calls_of (run_hook c (fst (snd s)) (snd (snd s)) h) else [])
     @ events_of r (run_schedule c rest (hook_after (run_hook c (fst (snd s)) (snd (snd s)) h)))"
  by (simp add: events_of_def Let_def filter_map comp_def)

lemma events_of_append:
  "events_of r (run_schedule c (xs @ ys) h) =
     events_of r (run_schedule c xs h)
     @ events_of r (run_schedule c ys (fst (run_schedule c xs h)))"
  by (simp add: run_schedule_append events_of_def)

lemma final_hook_step:
  "fst (run_schedule c (s # rest) h) =
     fst (run_schedule c rest (hook_after (run_hook c (fst (snd s)) (snd (snd s)) h)))"
  by (simp add: Let_def)

lemma final_hook_append:
  "fst (run_schedule c (xs @ ys) h) = fst (run_schedule c ys (fst (run_schedule c xs h)))"
  by (simp add: run_schedule_append)

lemma mids_schedule:
  assumes "undisturbed self r mids" and "in_flight self h sp a st e"
  shows "in_flight self (fst (run_schedule c mids h)) sp a st (stored_exception self e mids)
         \<and> counter_adds (events_of r (run_schedule c mids h)) = []
         \<and> histogram_records (events_of r (run_schedule c mids h)) = []
         \<and> activation_exits (events_of r (run_schedule c mids h)) = []"
  using assms
proof (induction mids arbitrary: h e)
  case Nil
  then show ?case by (simp add: events_of_def)
next
  case (Cons s mids)
  let ?cb = "fst (snd s)" and ?th = "snd (snd s)"
  let ?e = "if ?cb = AfterErrorResponse \<and> eligible self ?th then exc_info ?th else e"
  from Cons.prems(1) have rest: "undisturbed self r mids"
    and ok: "if ?cb = OnStartResource then \<not> eligible self ?th else True"
    and own: "fst s = r \<Longrightarrow> is_mid ?cb"
    by (auto split: if_splits)
  have fl: "in_flight self (hook_after (run_hook c ?cb ?th h)) sp a st ?e"
    by (rule other_step_hook [OF Cons.prems(2) ok])
  have calls: "counter_adds (if fst s = r then calls_of (run_hook c ?cb ?th h) else []) = []"
    "histogram_records (if fst s = r then calls_of (run_hook c ?cb ?th h) else []) = []"
    "activation_exits (if fst s = r then calls_of (run_hook c ?cb ?th h) else []) = []"
    using other_step_calls [OF Cons.prems(2) own] by simp_all
  from Cons.IH [OF rest fl] calls show ?case
    by (simp only: events_of_step final_hook_step stored_exception.simps
        counter_adds_append histogram_records_append activation_exits_append) simp
qed

lemma request_schedule:
  assumes "eligible self th0" and "undisturbed self r mids" and "eligible self th1"
  shows "\<exists>d. same_config self (fst (run_schedule c (request_run r th0 mids th1) self))
           \<and> counter_adds (events_of r (run_schedule c (request_run r th0 mids th1) self)) =
               [(active_requests_counter self, 1, start_count_attrs c th0),
                (active_requests_counter self, - 1, start_count_attrs c th0)]
           \<and> histogram_records (events_of r (run_schedule c (request_run r th0 mids th1) self)) =
               [(duration_histogram self, duration_ms c (default_timer th1) (default_timer th0), d)]
           \<and> activation_exits (events_of r (run_schedule c (request_run r th0 mids th1) self)) =
               [(started_span c self th0, exit_args (stored_exception self None mids))]"
proof -
  from start_step [OF assms(1)] obtain h1 evs1 where
    s1: "on_start_resource_hook c th0 self = Inr (h1, th0, evs1)"
    and f1: "in_flight self h1 (started_span c self th0) (start_count_attrs c th0) (default_timer th0) None"
    and q1: "counter_adds evs1 = [(active_requests_counter self, 1, start_count_attrs c th0)]"
      "histogram_records evs1 = []" "activation_exits evs1 = []"
    by blast
  let ?h2 = "fst (run_schedule c mids h1)"
  from mids_schedule [OF assms(2) f1] have
    f2: "in_flight self ?h2 (started_span c self th0) (start_count_attrs c th0) (default_timer th0)
           (stored_exception self None mids)"
    and q2: "counter_adds (events_of r (run_schedule c mids h1)) = []"
      "histogram_records (events_of r (run_schedule c mids h1)) = []"
      "activation_exits (events_of r (run_schedule c mids h1)) = []"
    by simp_all
  from end_step [OF assms(3) f2] obtain evs3 d where
    s3: "on_end_request_hook c th1 ?h2 = Inr (?h2, th1, evs3)"
    and q3: "counter_adds evs3 = [(active_requests_counter self, - 1, start_count_attrs c th0)]"
      "histogram_records evs3 =
         [(duration_histogram self, duration_ms c (default_timer th1) (default_timer th0), d)]"
      "activation_exits evs3 =
         [(started_span c self th0, exit_args (stored_exception self None mids))]"
    by blast
  have last: "events_of r (run_schedule c [(r, OnEndRequest, th1)] ?h2) = evs3"
    "fst (run_schedule c [(r, OnEndRequest, th1)] ?h2) = ?h2"
    using s3 by (simp_all add: events_of_def Let_def calls_of_def hook_after_def comp_def)
  have first: "run_hook c OnStartResource th0 self = Inr (h1, th0, evs1)"
    using s1 by simp
  have proj: "calls_of (Inr (h1, th0, evs1)) = evs1" "hook_after (Inr (h1, th0, evs1)) = h1"
    by (simp_all add: calls_of_def hook_after_def)
  have "events_of r (run_schedule c ((r, OnStartResource, th0) # (mids @ [(r, OnEndRequest, th1)])) self)
      = evs1 @ events_of r (run_schedule c (mids @ [(r, OnEndRequest, th1)]) h1)"
    by (simp only: events_of_step fst_conv snd_conv first proj) simp
  also have "events_of r (run_schedule c (mids @ [(r, OnEndRequest, th1)]) h1)
      = events_of r (run_schedule c mids h1) @ evs3"
    by (simp only: events_of_append last)
  finally have whole_events: "events_of r (run_schedule c (request_run r th0 mids th1) self)
      = evs1 @ events_of r (run_schedule c mids h1) @ evs3"
    by (simp add: request_run_def)
  have "fst (run_schedule c ((r, OnStartResource, th0) # (mids @ [(r, OnEndRequest, th1)])) self)
      = fst (run_schedule c (mids @ [(r, OnEndRequest, th1)]) h1)"
    by (simp only: final_hook_step fst_conv snd_conv first proj)
  also have "\<dots> = ?h2"
    by (simp only: final_hook_append last)
  finally have whole_hook: "fst (run_schedule c (request_run r th0 mids th1) self) = ?h2"
    by (simp add: request_run_def)
  note whole = whole_events whole_hook
  show ?thesis
    unfolding whole
    using q1 q2 q3 in_flight_config [OF f2]
    by (simp add: counter_adds_append histogram_records_append activation_exits_append)
qed

subsection \<open>A request handled alone\<close>

lemma run_schedule_tagged:
  "run_schedule c (tagged r steps) h =
     (fst (run_steps c steps h),
      map (Pair r) (fst (snd (run_steps c steps h))),
      map (Pair r) (snd (snd (run_steps c steps h))))"
  by (induction steps arbitrary: h) (simp_all add: tagged_def Let_def)

lemma events_of_tagged:
  "events_of r (run_schedule c (tagged r steps) h) = fst (snd (run_steps c steps h))"
  "errors_of r (run_schedule c (tagged r steps) h) = snd (snd (run_steps c steps h))"
  by (simp_all add: run_schedule_tagged events_of_def errors_of_def filter_map comp_def)

lemma events_of_tagged_other:
  "r \<noteq> r' \<Longrightarrow> events_of r (run_schedule c (tagged r' steps) h) = []"
  "r \<noteq> r' \<Longrightarrow> errors_of r (run_schedule c (tagged r' steps) h) = []"
  by (simp_all add: run_schedule_tagged events_of_def errors_of_def filter_map comp_def)

lemma mid_steps_attended: "mid_steps self mids \<Longrightarrow> attended self r (tagged r mids)"
  by (induction mids) (simp_all add: tagged_def)

lemma attended_undisturbed: "attended self r mids \<Longrightarrow> undisturbed self r mids"
  by (induction mids) (auto split: if_splits)

lemma attended_stored:
  "attended self r mids \<Longrightarrow> stored_exception self e mids = captured e (map snd (alone r mids))"
proof (induction mids arbitrary: e)
  case Nil
  then show ?case by (simp add: alone_def)
next
  case (Cons s mids)
  then have rest: "attended self r mids" by simp
  show ?case
  proof (cases "fst s = r")
    case True
    with Cons.prems have "eligible self (snd (snd s))" by simp
    with True Cons.IH [OF rest] show ?thesis by (simp add: alone_def)
  next
    case False
    with Cons.prems have "\<not> (fst (snd s) = AfterErrorResponse \<and> eligible self (snd (snd s)))"
      by (auto split: if_splits)
    with False Cons.IH [OF rest] show ?thesis by (auto simp: alone_def)
  qed
qed

lemma alone_tagged_same: "alone r (tagged r steps) = tagged r steps"
  by (simp add: alone_def tagged_def filter_map comp_def)

lemma lifecycle_tagged:
  "tagged r (lifecycle th0 mids th1) = request_run r th0 (tagged r mids) th1"
  by (simp add: tagged_def lifecycle_def request_run_def)

lemma lifecycle_run:
  assumes "eligible h th0" and "mid_steps h mids" and "eligible h th1"
  shows "\<exists>h' evs errs d. run_steps c (lifecycle th0 mids th1) h = (h', evs, errs)
           \<and> same_config h h'
           \<and> counter_adds evs =
               [(active_requests_counter h, 1, start_count_attrs c th0),
                (active_requests_counter h, - 1, start_count_attrs c th0)]
           \<and> histogram_records evs =
               [(duration_histogram h, duration_ms c (default_timer th1) (default_timer th0), d)]
           \<and> activation_exits evs = [(started_span c h th0, exit_args (captured None mids))]"
proof -
  have att: "attended h Request_A (tagged Request_A mids)"
    by (rule mid_steps_attended [OF assms(2)])
  have st: "stored_exception h None (tagged Request_A mids) = captured None mids"
    using attended_stored [OF att, of None]
    by (simp add: alone_tagged_same) (simp add: tagged_def comp_def)
  from request_schedule [OF assms(1) attended_undisturbed [OF att] assms(3), of c]
  obtain d where
    "same_config h (fst (run_steps c (lifecycle th0 mids th1) h))"
    "counter_adds (fst (snd (run_steps c (lifecycle th0 mids th1) h))) =
       [(active_requests_counter h, 1, start_count_attrs c th0),
        (active_requests_counter h, - 1, start_count_attrs c th0)]"
    "histogram_records (fst (snd (run_steps c (lifecycle th0 mids th1) h))) =
       [(duration_histogram h, duration_ms c (default_timer th1) (default_timer th0), d)]"
    "activation_exits (fst (snd (run_steps c (lifecycle th0 mids th1) h))) =
       [(started_span c h th0, exit_args (captured None mids))]"
    unfolding lifecycle_tagged [symmetric] events_of_tagged st
    by (auto simp: run_schedule_tagged)
  then show ?thesis
    by (cases "run_steps c (lifecycle th0 mids th1) h") auto
qed



subsection \<open>Further facts about runs\<close>

lemma result_projections:
  "hook_after (Inr (h, th, evs)) = h" "calls_of (Inr (h, th, evs)) = evs"
  "raised_by (Inr (h, th, evs)) = []"
  "hook_after (Inl (e, h, th, evs)) = h" "calls_of (Inl (e, h, th, evs)) = evs"
  "raised_by (Inl (e, h, th, evs)) = [e]"
  by (simp_all add: hook_after_def calls_of_def raised_by_def)

lemma events_of_Nil: "events_of r (run_schedule c [] h) = []"
  by (simp add: events_of_def)

lemma errors_of_append:
  "errors_of r (run_schedule c (xs @ ys) h) =
     errors_of r (run_schedule c xs h)
     @ errors_of r (run_schedule c ys (fst (run_schedule c xs h)))"
  by (simp add: run_schedule_append errors_of_def)

lemma start_forgets:
  assumes "same_config h h'" and "eligible h th"
  shows "on_start_resource_hook c th h' = on_start_resource_hook c th h"
  using assms
  by (simp add: on_start_resource_hook_def same_config_def eligible_def Let_def)

lemma lifecycle_forgets:
  assumes "same_config h h'" and "eligible h th0"
  shows "run_steps c (lifecycle th0 mids th1) h' = run_steps c (lifecycle th0 mids th1) h"
  using start_forgets [OF assms, of c]
  by (simp add: lifecycle_def Let_def)

lemma alone_two:
  "alone Request_A (tagged Request_A xs @ tagged Request_B ys) = tagged Request_A xs"
  "alone Request_B (tagged Request_A xs @ tagged Request_B ys) = tagged Request_B ys"
  by (simp_all add: alone_def tagged_def filter_map comp_def)

lemma in_flight_rebase:
  "same_config h0 h1 \<Longrightarrow> in_flight h1 h sp a st e \<Longrightarrow> in_flight h0 h sp a st e"
  by (simp add: in_flight_def same_config_def)

lemma started_span_config: "same_config h0 h1 \<Longrightarrow> started_span c h1 th = started_span c h0 th"
  by (simp add: started_span_def same_config_def)

subsection \<open>A second request started before the first one ends\<close>

text \<open>
  Request start assigns every field of the record, so after the start of a second
  request the end callback of the first works on the record of the second.
\<close>

lemma second_start_overwrites:
  assumes "same_config self h" and "eligible self sb" and "eligible self ea"
  shows "\<exists>h2 evs2 evs3 d.
           on_start_resource_hook c sb h = Inr (h2, sb, evs2)
           \<and> on_end_request_hook c ea h2 = Inr (h2, ea, evs3)
           \<and> counter_adds evs3 = [(active_requests_counter self, - 1, start_count_attrs c sb)]
           \<and> histogram_records evs3 =
               [(duration_histogram self, duration_ms c (default_timer ea) (default_timer sb), d)]
           \<and> activation_exits evs3 = [(started_span c self sb, None)]"
proof -
  have "eligible h sb"
    using eligible_config [OF assms(1)] assms(2) by simp
  from start_step [OF this] obtain h2 evs2 where
    s2: "on_start_resource_hook c sb h = Inr (h2, sb, evs2)"
    and f2: "in_flight h h2 (started_span c h sb) (start_count_attrs c sb) (default_timer sb) None"
    by blast
  have f2': "in_flight self h2 (started_span c self sb) (start_count_attrs c sb) (default_timer sb) None"
    using in_flight_rebase [OF assms(1) f2] started_span_config [OF assms(1)] by simp
  from end_step [OF assms(3) f2'] obtain evs3 d where
    "on_end_request_hook c ea h2 = Inr (h2, ea, evs3)"
    "counter_adds evs3 = [(active_requests_counter self, - 1, start_count_attrs c sb)]"
    "histogram_records evs3 =
       [(duration_histogram self, duration_ms c (default_timer ea) (default_timer sb), d)]"
    "activation_exits evs3 = [(started_span c self sb, exit_args None)]"
    by blast
  with s2 show ?thesis by (simp add: exit_args_def)
qed

lemma interleaved_starts:
  assumes "eligible self sa" and "eligible self sb" and "eligible self ea"
  shows "\<exists>d. counter_adds (events_of Request_A (run_schedule c
                 [(Request_A, OnStartResource, sa), (Request_B, OnStartResource, sb),
                  (Request_A, OnEndRequest, ea), (Request_B, OnEndRequest, eb)] self))
               = [(active_requests_counter self, 1, start_count_attrs c sa),
                  (active_requests_counter self, - 1, start_count_attrs c sb)]
           \<and> histogram_records (events_of Request_A (run_schedule c
                 [(Request_A, OnStartResource, sa), (Request_B, OnStartResource, sb),
                  (Request_A, OnEndRequest, ea), (Request_B, OnEndRequest, eb)] self))
               = [(duration_histogram self, duration_ms c (default_timer ea) (default_timer sb), d)]"
proof -
  from start_step [OF assms(1)] obtain h1 evs1 where
    s1: "on_start_resource_hook c sa self = Inr (h1, sa, evs1)"
    and f1: "in_flight self h1 (started_span c self sa) (start_count_attrs c sa) (default_timer sa) None"
    and q1: "counter_adds evs1 = [(active_requests_counter self, 1, start_count_attrs c sa)]"
      "histogram_records evs1 = []"
    by blast
  from second_start_overwrites [OF in_flight_config [OF f1] assms(2,3)] obtain h2 evs2 evs3 d where
    s2: "on_start_resource_hook c sb h1 = Inr (h2, sb, evs2)"
    and s3: "on_end_request_hook c ea h2 = Inr (h2, ea, evs3)"
    and q3: "counter_adds evs3 = [(active_requests_counter self, - 1, start_count_attrs c sb)]"
      "histogram_records evs3 =
         [(duration_histogram self, duration_ms c (default_timer ea) (default_timer sb), d)]"
    by blast
  have "events_of Request_A (run_schedule c
          [(Request_A, OnStartResource, sa), (Request_B, OnStartResource, sb),
           (Request_A, OnEndRequest, ea), (Request_B, OnEndRequest, eb)] self)
        = evs1 @ evs3"
    by (simp only: events_of_step events_of_Nil fst_conv snd_conv run_hook.simps
        s1 s2 s3 result_projections) simp
  with q1 q3 show ?thesis
    by (simp add: counter_adds_append histogram_records_append)
qed


subsection \<open>Callbacks that do nothing, and the response-ready callback without a status\<close>

lemma excluded_noop:
  "otel_excluded_urls self (path_info (wsgi_environ th)) \<Longrightarrow> run_hook c cb th self = Inr (self, th, [])"
  by (rule ineligible_noop) (simp add: eligible_def)

lemma disabled_noop:
  "\<not> is_instrumented_by_opentelemetry self \<Longrightarrow> run_hook c cb th self = Inr (self, th, [])"
  by (rule ineligible_noop) (simp add: eligible_def)

lemma excluded_steps_noop:
  "all_excluded self steps \<Longrightarrow> run_steps c steps self = (self, [], [])"
  by (induction steps) (simp_all add: excluded_noop result_projections)

lemma disabled_steps_noop:
  "\<not> is_instrumented_by_opentelemetry self \<Longrightarrow> run_steps c steps self = (self, [], [])"
  by (induction steps) (simp_all add: disabled_noop result_projections)

lemma on_end_resource_raises_without_status:
  assumes "eligible h th" and "span_attr h = Some sp" and "response_status th = Status_None"
  shows "on_end_resource_hook c th h
           = Inl (AttributeError ''split'', h, th,
                  [Add_response_attributes sp Status_None (response_headers th)])"
  using assms
  by (simp add: on_end_resource_hook_def eligible_def Let_def add_response_attributes_raises_def
      parse_status_code_def split_status_def)

subsection \<open>The concrete setting\<close>

lemma demo_hook_config:
  "otel_excluded_urls (hook_init demo_globals []) = (\<lambda>url. url = ''/ping'')"
  "is_instrumented_by_opentelemetry (hook_init demo_globals [])"
  by (simp_all add: hook_init_def demo_globals_def pop_def Let_def)

lemma demo_eligible:
  "eligible (hook_init demo_globals []) (demo_thread m ''/hello'' s e t)"
  "eligible (hook_init demo_globals []) (demo_thread m ''/user'' s e t)"
  by (simp_all add: eligible_def demo_hook_config demo_thread_def path_info_def)

lemma demo_thread_simps:
  "default_timer (demo_thread m p s e t) = t"
  "exc_info (demo_thread m p s e t) = e"
  "response_status (demo_thread m p s e t) = s"
  by (simp_all add: demo_thread_def)

lemma demo_count_attrs:
  "start_count_attrs demo_collab (demo_thread m p s e t) = [(''http.method'', Attr_str m)]"
  by (simp add: start_count_attrs_def demo_collab_def demo_thread_def demo_method_def)


lemma demo_duration:
  "duration_ms demo_collab x y = max (round ((x - y) * 1000)) 0"
  "py_round demo_collab (float_mul demo_collab (float_sub demo_collab x y) 1000) = round ((x - y) * 1000)"
  by (simp_all add: duration_ms_def demo_collab_def)

lemma demo_interleaved_counter_calls:
  "counter_adds (events_of Request_A
        (run_schedule demo_collab demo_interleaved (hook_init demo_globals [])))
      = [(active_requests_counter (hook_init demo_globals []), 1, [(''http.method'', Attr_str ''GET'')]),
         (active_requests_counter (hook_init demo_globals []), - 1, [(''http.method'', Attr_str ''POST'')])]"
proof -
  note interleaved_starts
      [where self = "hook_init demo_globals []" and c = demo_collab
         and sa = "demo_thread ''GET'' ''/hello'' Status_None None 10"
         and sb = "demo_thread ''POST'' ''/user'' Status_None None 11"
         and ea = "demo_thread ''GET'' ''/hello'' (Status_str ''200 OK'') None 12"
         and eb = "demo_thread ''POST'' ''/user'' (Status_str ''200 OK'') None 13",
       OF demo_eligible(1) demo_eligible(2) demo_eligible(1)]
  then show ?thesis
    unfolding demo_interleaved_def demo_count_attrs by blast
qed

lemma demo_alone:
  "alone Request_A demo_interleaved
     = tagged Request_A (lifecycle (demo_thread ''GET'' ''/hello'' Status_None None 10) []
         (demo_thread ''GET'' ''/hello'' (Status_str ''200 OK'') None 12))"
  by (simp add: alone_def demo_interleaved_def tagged_def lifecycle_def)

lemma demo_alone_counter_calls:
  "counter_adds (events_of Request_A
        (run_schedule demo_collab (alone Request_A demo_interleaved) (hook_init demo_globals [])))
      = [(active_requests_counter (hook_init demo_globals []), 1, [(''http.method'', Attr_str ''GET'')]),
         (active_requests_counter (hook_init demo_globals []), - 1, [(''http.method'', Attr_str ''GET'')])]"
proof -
  have m: "mid_steps (hook_init demo_globals []) []" by simp
  have e0: "eligible (hook_init demo_globals []) (demo_thread ''GET'' ''/hello'' Status_None None 10)"
    and e1: "eligible (hook_init demo_globals [])
               (demo_thread ''GET'' ''/hello'' (Status_str ''200 OK'') None 12)"
    by (rule demo_eligible)+
  from lifecycle_run [OF e0 m e1, of demo_collab]
  show ?thesis
    unfolding demo_alone events_of_tagged demo_count_attrs
    by auto
qed

section \<open>The claims\<close>

subsection \<open>C1: the active-request counter\<close>

text \<open>
  C1, as stated, holds of every request that is not excluded and not disabled: its
  request end decrements the counter with the attributes its request start incremented
  it with. The attributes are kept on the one hook object, so it fails when another
  request starts in between: with \<^verbatim>\<open>GET /hello\<close> started, then \<^verbatim>\<open>POST /user\<close>
  started, the end of \<^verbatim>\<open>GET /hello\<close> adds \<open>-1\<close> with the attributes of \<^verbatim>\<open>POST /user\<close>.
\<close>

theorem C1_counterexample:
  "eligible (hook_init demo_globals []) (demo_thread ''GET'' ''/hello'' Status_None None 10)
   \<and> eligible (hook_init demo_globals []) (demo_thread ''GET'' ''/hello'' (Status_str ''200 OK'') None 12)
   \<and> map snd (counter_adds (events_of Request_A
        (run_schedule demo_collab demo_interleaved (hook_init demo_globals []))))
      = [(1, [(''http.method'', Attr_str ''GET'')]), (- 1, [(''http.method'', Attr_str ''POST'')])]
   \<and> \<not> counter_balanced demo_collab (hook_init demo_globals []) demo_interleaved Request_A
          (demo_thread ''GET'' ''/hello'' Status_None None 10)"
proof -
  note calls = demo_interleaved_counter_calls
  then have "\<not> counter_balanced demo_collab (hook_init demo_globals []) demo_interleaved Request_A
          (demo_thread ''GET'' ''/hello'' Status_None None 10)"
    by (simp add: counter_balanced_def demo_count_attrs)
  with calls demo_eligible(1) show ?thesis by simp
qed

text \<open>
  C1, amended. For every request that is not excluded and not disabled, and between
  whose request start and request end no other eligible request is started on the hook
  object, the callbacks of the request make exactly two calls on the up-down counter:
  \<open>+1\<close> at request start with the active-request attributes computed at start, and
  \<open>-1\<close> at request end with the same attributes; they sum to zero. This holds on error
  paths too: whichever of the callbacks before-finalize, response-ready and
  error-observed run in between, of this or of other requests, and whether or not they
  raise.
\<close>

theorem C1_counter_balanced_when_undisturbed:
  assumes "eligible self th0" and "undisturbed self r mids" and "eligible self th1"
  shows "counter_balanced c self (request_run r th0 mids th1) r th0
         \<and> sum_list (map (\<lambda>x. fst (snd x))
              (counter_adds (events_of r (run_schedule c (request_run r th0 mids th1) self)))) = 0"
  using request_schedule [OF assms, of c]
  by (auto simp: counter_balanced_def)

theorem C1_witness:
  "eligible (hook_init demo_globals []) (demo_thread ''GET'' ''/hello'' Status_None None 10)
   \<and> undisturbed (hook_init demo_globals []) Request_A
        [(Request_A, OnEndResource, demo_thread ''GET'' ''/hello'' Status_None (Some demo_exc) 10.1),
         (Request_B, BeforeFinalize, demo_thread ''POST'' ''/user'' (Status_str ''200 OK'') None 10.15),
         (Request_A, AfterErrorResponse, demo_thread ''GET'' ''/hello'' Status_None (Some demo_exc) 10.2)]
   \<and> eligible (hook_init demo_globals [])
        (demo_thread ''GET'' ''/hello'' (Status_str ''500 Internal Server Error'') None 10.25)
   \<and> map snd (counter_adds (events_of Request_A
        (run_schedule demo_collab
           (request_run Request_A (demo_thread ''GET'' ''/hello'' Status_None None 10)
              [(Request_A, OnEndResource, demo_thread ''GET'' ''/hello'' Status_None (Some demo_exc) 10.1),
               (Request_B, BeforeFinalize, demo_thread ''POST'' ''/user'' (Status_str ''200 OK'') None 10.15),
               (Request_A, AfterErrorResponse, demo_thread ''GET'' ''/hello'' Status_None (Some demo_exc) 10.2)]
              (demo_thread ''GET'' ''/hello'' (Status_str ''500 Internal Server Error'') None 10.25))
           (hook_init demo_globals []))))
      = [(1, [(''http.method'', Attr_str ''GET'')]), (- 1, [(''http.method'', Attr_str ''GET'')])]"
proof -
  have e0: "eligible (hook_init demo_globals []) (demo_thread ''GET'' ''/hello'' Status_None None 10)"
    and e1: "eligible (hook_init demo_globals [])
        (demo_thread ''GET'' ''/hello'' (Status_str ''500 Internal Server Error'') None 10.25)"
    by (rule demo_eligible)+
  have u: "undisturbed (hook_init demo_globals []) Request_A
        [(Request_A, OnEndResource, demo_thread ''GET'' ''/hello'' Status_None (Some demo_exc) 10.1),
         (Request_B, BeforeFinalize, demo_thread ''POST'' ''/user'' (Status_str ''200 OK'') None 10.15),
         (Request_A, AfterErrorResponse, demo_thread ''GET'' ''/hello'' Status_None (Some demo_exc) 10.2)]"
    by simp
  from C1_counter_balanced_when_undisturbed [OF e0 u e1, of demo_collab] e0 u e1
  show ?thesis
    by (simp add: counter_balanced_def demo_count_attrs)
qed

subsection \<open>C2: where the record of a request is kept\<close>

text \<open>
  C2, as stated, asks that the callbacks of two concurrently handled requests never
  read or overwrite each other's record, for every interleaving. The record is held in
  attributes of the one tool object, so it fails: when \<^verbatim>\<open>POST /user\<close> starts between the
  start and the end of \<^verbatim>\<open>GET /hello\<close>, the end of \<^verbatim>\<open>GET /hello\<close> decrements the
  counter with the attributes of \<^verbatim>\<open>POST /user\<close>.
\<close>

theorem C2_counterexample:
  "demo_interleaved \<in> shuffles
      (tagged Request_A (lifecycle (demo_thread ''GET'' ''/hello'' Status_None None 10) []
         (demo_thread ''GET'' ''/hello'' (Status_str ''200 OK'') None 12)))
      (tagged Request_B (lifecycle (demo_thread ''POST'' ''/user'' Status_None None 11) []
         (demo_thread ''POST'' ''/user'' (Status_str ''200 OK'') None 13)))
   \<and> \<not> isolated demo_collab (hook_init demo_globals []) demo_interleaved"
proof -
  have "demo_interleaved \<in> shuffles
      (tagged Request_A (lifecycle (demo_thread ''GET'' ''/hello'' Status_None None 10) []
         (demo_thread ''GET'' ''/hello'' (Status_str ''200 OK'') None 12)))
      (tagged Request_B (lifecycle (demo_thread ''POST'' ''/user'' Status_None None 11) []
         (demo_thread ''POST'' ''/user'' (Status_str ''200 OK'') None 13)))"
    by (simp add: demo_interleaved_def tagged_def lifecycle_def)
  moreover have "\<not> isolated demo_collab (hook_init demo_globals []) demo_interleaved"
  proof
    assume "isolated demo_collab (hook_init demo_globals []) demo_interleaved"
    then have "events_of Request_A
          (run_schedule demo_collab demo_interleaved (hook_init demo_globals []))
        = events_of Request_A
          (run_schedule demo_collab (alone Request_A demo_interleaved) (hook_init demo_globals []))"
      by (simp add: isolated_def)
    with demo_interleaved_counter_calls demo_alone_counter_calls show False
      by simp
  qed
  ultimately show ?thesis by simp
qed

text \<open>
  C2, amended. The record is kept in attributes of the single tool object, which all
  requests share. When two eligible requests are handled one after the other (every
  callback of the first runs before the start of the second), the callbacks of each
  make the same calls, and raise the same exceptions, as when the request is handled
  alone: request start assigns every field of the record anew.
\<close>

theorem C2_consecutive_requests_isolated:
  assumes "eligible self a0" and "mid_steps self amids" and "eligible self a1"
    and "eligible self b0" and "mid_steps self bmids" and "eligible self b1"
  shows "isolated c self
           (tagged Request_A (lifecycle a0 amids a1) @ tagged Request_B (lifecycle b0 bmids b1))"
proof -
  from lifecycle_run [OF assms(1-3), of c] have
    cfg: "same_config self (fst (run_steps c (lifecycle a0 amids a1) self))"
    by auto
  have after: "fst (run_schedule c (tagged Request_A (lifecycle a0 amids a1)) self)
      = fst (run_steps c (lifecycle a0 amids a1) self)"
    by (simp add: run_schedule_tagged)
  have same: "run_steps c (lifecycle b0 bmids b1) (fst (run_steps c (lifecycle a0 amids a1) self))
      = run_steps c (lifecycle b0 bmids b1) self"
    by (rule lifecycle_forgets [OF cfg assms(4)])
  show ?thesis
    unfolding isolated_def alone_two events_of_append errors_of_append after
    by (simp add: events_of_tagged events_of_tagged_other same)
qed

theorem C2_witness:
  "eligible (hook_init demo_globals []) (demo_thread ''GET'' ''/hello'' Status_None None 10)
   \<and> mid_steps (hook_init demo_globals [])
        [(OnEndResource, demo_thread ''GET'' ''/hello'' Status_None None 11)]
   \<and> eligible (hook_init demo_globals []) (demo_thread ''GET'' ''/hello'' (Status_str ''200 OK'') None 12)
   \<and> eligible (hook_init demo_globals []) (demo_thread ''POST'' ''/user'' Status_None None 13)
   \<and> mid_steps (hook_init demo_globals []) []
   \<and> eligible (hook_init demo_globals []) (demo_thread ''POST'' ''/user'' (Status_str ''200 OK'') None 14)
   \<and> isolated demo_collab (hook_init demo_globals [])
        (tagged Request_A (lifecycle (demo_thread ''GET'' ''/hello'' Status_None None 10)
           [(OnEndResource, demo_thread ''GET'' ''/hello'' Status_None None 11)]
           (demo_thread ''GET'' ''/hello'' (Status_str ''200 OK'') None 12))
         @ tagged Request_B (lifecycle (demo_thread ''POST'' ''/user'' Status_None None 13) []
           (demo_thread ''POST'' ''/user'' (Status_str ''200 OK'') None 14)))"
proof -
  have a0: "eligible (hook_init demo_globals []) (demo_thread ''GET'' ''/hello'' Status_None None 10)"
    and a1: "eligible (hook_init demo_globals []) (demo_thread ''GET'' ''/hello'' (Status_str ''200 OK'') None 12)"
    by (rule demo_eligible)+
  have b0: "eligible (hook_init demo_globals []) (demo_thread ''POST'' ''/user'' Status_None None 13)"
    and b1: "eligible (hook_init demo_globals []) (demo_thread ''POST'' ''/user'' (Status_str ''200 OK'') None 14)"
    by (rule demo_eligible)+
  have ma: "mid_steps (hook_init demo_globals [])
        [(OnEndResource, demo_thread ''GET'' ''/hello'' Status_None None 11)]"
    by (simp add: demo_eligible)
  have mb: "mid_steps (hook_init demo_globals []) []" by simp
  from C2_consecutive_requests_isolated [OF a0 ma a1 b0 mb b1, of demo_collab] a0 a1 b0 b1 ma mb
  show ?thesis by blast
qed

subsection \<open>C3: the providers given at construction\<close>

text \<open>
  C3. \<^verbatim>\<open>__init__\<close> reads the meter provider under the key \<^verbatim>\<open>'metr_provider'\<close>. A
  provider supplied as \<^verbatim>\<open>meter_provider\<close> is therefore not read: the histogram and the
  up-down counter are obtained from a meter of the process-wide global provider. A
  supplied \<^verbatim>\<open>tracer_provider\<close> is used.
\<close>

theorem C3_meter_provider_option_is_not_read:
  "meter_provider (instr_meter (duration_histogram
      (hook_init demo_globals [(''meter_provider'', Provider ''supplied meter provider'')])))
     = Provider ''global meter provider''
   \<and> meter_provider (instr_meter (active_requests_counter
      (hook_init demo_globals [(''meter_provider'', Provider ''supplied meter provider'')])))
     = Provider ''global meter provider''
   \<and> tracer_provider (otel_tracer
      (hook_init demo_globals [(''tracer_provider'', Provider ''supplied tracer provider'')]))
     = Provider ''supplied tracer provider''"
  by (simp add: hook_init_def pop_def Let_def get_meter_def get_tracer_def create_histogram_def
      create_up_down_counter_def demo_globals_def)

subsection \<open>C4: the two call shapes of the wrapped expose\<close>

text \<open>
  C4. In the branch for \<^verbatim>\<open>expose(alias=...)\<close> the wrapper returns itself, not
  \<^verbatim>\<open>_Instrumented_expose_callable\<close>. Applied to a handler in a class body, what it
  returned decorates the handler with the tool and exposes it with no alias: \<^verbatim>\<open>greet\<close>
  is bound in no namespace, where the framework's own \<^verbatim>\<open>expose(alias='greet')\<close> binds it
  in the class body. The direct form \<^verbatim>\<open>expose(handler)\<close> decorates and exposes the
  handler. The direct form with an alias, \<^verbatim>\<open>expose(handler, alias='greet')\<close>, decorates
  and exposes the handler too, but the framework's \<^verbatim>\<open>expose\<close>, called from the wrapper,
  binds the alias in the frame of the wrapper and not in the class body. Each result is
  shown with the bindings of the class body and of the wrapper's frame.
\<close>

theorem C4_parameterized_expose_drops_alias:
  "map_option (\<lambda>x. (fst x, snd x Class_body, snd x Wrapper_frame))
      (apply_result demo_tool_decorator demo_expose
         (fst (Instrumented_expose demo_tool_decorator demo_expose Func_None (Some ''greet'') no_bindings))
         demo_handler
         (snd (Instrumented_expose demo_tool_decorator demo_expose Func_None (Some ''greet'') no_bindings)))
     = Some (Exposed \<lparr>handler_name = ''hello'', tool_on = True, exposed = True\<rparr>, [], [])
   \<and> map_option (\<lambda>x. (fst x, snd x Class_body, snd x Wrapper_frame))
      (apply_result demo_tool_decorator demo_expose
         (fst (demo_expose Class_body Func_None (Some ''greet'') no_bindings))
         (demo_tool_decorator demo_handler)
         (snd (demo_expose Class_body Func_None (Some ''greet'') no_bindings)))
     = Some (Exposed \<lparr>handler_name = ''hello'', tool_on = True, exposed = True\<rparr>,
             [(''greet'', \<lparr>handler_name = ''hello'', tool_on = True, exposed = True\<rparr>)], [])
   \<and> (\<lambda>x. (fst x, snd x Class_body, snd x Wrapper_frame))
      (Instrumented_expose demo_tool_decorator demo_expose (Decoratable demo_handler) None no_bindings)
     = (Exposed \<lparr>handler_name = ''hello'', tool_on = True, exposed = True\<rparr>, [], [])
   \<and> (\<lambda>x. (fst x, snd x Class_body, snd x Wrapper_frame))
      (Instrumented_expose demo_tool_decorator demo_expose (Decoratable demo_handler) (Some ''greet'')
         no_bindings)
     = (Exposed \<lparr>handler_name = ''hello'', tool_on = True, exposed = True\<rparr>, [],
        [(''greet'', \<lparr>handler_name = ''hello'', tool_on = True, exposed = True\<rparr>)])"
  by (simp add: apply_result_def Instrumented_expose_def demo_expose_def demo_expose_inner_def
      demo_tool_decorator_def demo_handler_def no_bindings_def)

subsection \<open>C5: how the span is deactivated\<close>




subsection \<open>C6: the recorded duration\<close>

text \<open>
  C6, as stated, holds of every request that reaches request end eligibly: the duration
  is measured from the reading taken at its own request start. The reading is kept on
  the one hook object, so it fails when another request starts in between:
  \<^verbatim>\<open>GET /hello\<close> starts at 10, \<^verbatim>\<open>POST /user\<close> at 11, and the end of \<^verbatim>\<open>GET /hello\<close> at
  12 records 1000 ms, not 2000.
\<close>

theorem C6_counterexample:
  "eligible (hook_init demo_globals []) (demo_thread ''GET'' ''/hello'' Status_None None 10)
   \<and> eligible (hook_init demo_globals []) (demo_thread ''GET'' ''/hello'' (Status_str ''200 OK'') None 12)
   \<and> map (\<lambda>x. fst (snd x)) (histogram_records (events_of Request_A
        (run_schedule demo_collab demo_interleaved (hook_init demo_globals []))))
      = [1000]
   \<and> max (py_round demo_collab (float_mul demo_collab (float_sub demo_collab
        (default_timer (demo_thread ''GET'' ''/hello'' (Status_str ''200 OK'') None 12))
        (default_timer (demo_thread ''GET'' ''/hello'' Status_None None 10))) 1000)) 0 = 2000
   \<and> \<not> duration_from_own_start demo_collab (hook_init demo_globals []) demo_interleaved Request_A
          (demo_thread ''GET'' ''/hello'' Status_None None 10)
          (demo_thread ''GET'' ''/hello'' (Status_str ''200 OK'') None 12)"
proof -
  note interleaved_starts
      [where self = "hook_init demo_globals []" and c = demo_collab
         and sa = "demo_thread ''GET'' ''/hello'' Status_None None 10"
         and sb = "demo_thread ''POST'' ''/user'' Status_None None 11"
         and ea = "demo_thread ''GET'' ''/hello'' (Status_str ''200 OK'') None 12"
         and eb = "demo_thread ''POST'' ''/user'' (Status_str ''200 OK'') None 13",
       OF demo_eligible(1) demo_eligible(2) demo_eligible(1)]
  note run = this
  have v: "duration_ms demo_collab
        (default_timer (demo_thread ''GET'' ''/hello'' (Status_str ''200 OK'') None 12))
        (default_timer (demo_thread ''POST'' ''/user'' Status_None None 11)) = 1000"
    by (simp add: demo_duration demo_thread_simps)
  from run obtain d where "histogram_records (events_of Request_A
        (run_schedule demo_collab demo_interleaved (hook_init demo_globals [])))
      = [(duration_histogram (hook_init demo_globals []), 1000, d)]"
    unfolding demo_interleaved_def v by blast
  then show ?thesis
    using demo_eligible(1)
    by (simp add: duration_from_own_start_def demo_duration demo_thread_simps)
qed

text \<open>
  C6, amended. For every eligible request between whose request start and request end
  no other eligible request is started on the hook object, request end records exactly
  one value on the duration histogram: \<^verbatim>\<open>max(round((now - start) * 1000), 0)\<close>, where
  \<open>start\<close> is the reading of \<^verbatim>\<open>default_timer()\<close> taken at its request start and \<open>now\<close>
  the reading at its request end. The value is an integer and is not negative.
\<close>

theorem C6_duration_recorded:
  assumes "eligible self th0" and "undisturbed self r mids" and "eligible self th1"
  shows "duration_from_own_start c self (request_run r th0 mids th1) r th0 th1
         \<and> 0 \<le> max (py_round c (float_mul c (float_sub c (default_timer th1) (default_timer th0)) 1000)) 0"
  using request_schedule [OF assms, of c]
  by (auto simp: duration_from_own_start_def duration_ms_def)

theorem C6_witness:
  "eligible (hook_init demo_globals []) (demo_thread ''GET'' ''/hello'' Status_None None 10)
   \<and> undisturbed (hook_init demo_globals []) Request_A
        [(Request_A, OnEndResource, demo_thread ''GET'' ''/hello'' (Status_str ''200 OK'') None 10.2),
         (Request_B, OnEndRequest, demo_thread ''POST'' ''/user'' (Status_str ''200 OK'') None 10.22)]
   \<and> eligible (hook_init demo_globals []) (demo_thread ''GET'' ''/hello'' (Status_str ''200 OK'') None 10.25)
   \<and> map (\<lambda>x. fst (snd x)) (histogram_records (events_of Request_A
        (run_schedule demo_collab
           (request_run Request_A (demo_thread ''GET'' ''/hello'' Status_None None 10)
              [(Request_A, OnEndResource, demo_thread ''GET'' ''/hello'' (Status_str ''200 OK'') None 10.2),
               (Request_B, OnEndRequest, demo_thread ''POST'' ''/user'' (Status_str ''200 OK'') None 10.22)]
              (demo_thread ''GET'' ''/hello'' (Status_str ''200 OK'') None 10.25))
           (hook_init demo_globals []))))
      = [250]"
proof -
  have e0: "eligible (hook_init demo_globals []) (demo_thread ''GET'' ''/hello'' Status_None None 10)"
    and e1: "eligible (hook_init demo_globals [])
        (demo_thread ''GET'' ''/hello'' (Status_str ''200 OK'') None 10.25)"
    by (rule demo_eligible)+
  have u: "undisturbed (hook_init demo_globals []) Request_A
        [(Request_A, OnEndResource, demo_thread ''GET'' ''/hello'' (Status_str ''200 OK'') None 10.2),
         (Request_B, OnEndRequest, demo_thread ''POST'' ''/user'' (Status_str ''200 OK'') None 10.22)]"
    by simp
  have "(10.25 - 10) * 1000 = (250::real)" by simp
  then have d: "max (py_round demo_collab (float_mul demo_collab (float_sub demo_collab
        (default_timer (demo_thread ''GET'' ''/hello'' (Status_str ''200 OK'') None 10.25))
        (default_timer (demo_thread ''GET'' ''/hello'' Status_None None 10))) 1000)) 0 = 250"
    by (simp add: demo_duration demo_thread_simps)
  from C6_duration_recorded [OF e0 u e1, of demo_collab] e0 u e1
  have "map (\<lambda>x. (fst x, fst (snd x))) (histogram_records (events_of Request_A
        (run_schedule demo_collab
           (request_run Request_A (demo_thread ''GET'' ''/hello'' Status_None None 10)
              [(Request_A, OnEndResource, demo_thread ''GET'' ''/hello'' (Status_str ''200 OK'') None 10.2),
               (Request_B, OnEndRequest, demo_thread ''POST'' ''/user'' (Status_str ''200 OK'') None 10.22)]
              (demo_thread ''GET'' ''/hello'' (Status_str ''200 OK'') None 10.25))
           (hook_init demo_globals []))))
      = [(duration_histogram (hook_init demo_globals []), 250)]"
    unfolding duration_from_own_start_def d by simp
  then have "map (\<lambda>x. fst (snd x)) (histogram_records (events_of Request_A
        (run_schedule demo_collab
           (request_run Request_A (demo_thread ''GET'' ''/hello'' Status_None None 10)
              [(Request_A, OnEndResource, demo_thread ''GET'' ''/hello'' (Status_str ''200 OK'') None 10.2),
               (Request_B, OnEndRequest, demo_thread ''POST'' ''/user'' (Status_str ''200 OK'') None 10.22)]
              (demo_thread ''GET'' ''/hello'' (Status_str ''200 OK'') None 10.25))
           (hook_init demo_globals []))))
      = [250]"
    by (auto simp: map_eq_Cons_conv)
  with e0 u e1 show ?thesis by simp
qed

subsection \<open>C7: excluded requests\<close>

text \<open>
  C7. When the path of the request matches the exclusion policy, each of the five
  callbacks returns the hook object and the thread state unchanged and makes no call on
  the telemetry API, whatever the response status and the propagating exception are;
  so does every sequence of callbacks for such requests, and none raises.
\<close>

theorem C7_excluded_request_untouched:
  assumes "otel_excluded_urls self (path_info (wsgi_environ th))" and "all_excluded self steps"
  shows "run_hook c cb th self = Inr (self, th, [])
         \<and> run_steps c steps self = (self, [], [])"
  using assms by (simp add: excluded_noop excluded_steps_noop)

theorem C7_witness:
  "otel_excluded_urls (hook_init demo_globals [])
     (path_info (wsgi_environ (demo_thread ''GET'' ''/ping'' (Status_str ''200 OK'') (Some demo_exc) 3)))
   \<and> all_excluded (hook_init demo_globals [])
        [(OnStartResource, demo_thread ''GET'' ''/ping'' Status_None None 1),
         (BeforeFinalize, demo_thread ''GET'' ''/ping'' (Status_str ''200 OK'') None 2),
         (OnEndResource, demo_thread ''GET'' ''/ping'' (Status_str ''200 OK'') None 3),
         (AfterErrorResponse, demo_thread ''GET'' ''/ping'' (Status_str ''200 OK'') (Some demo_exc) 3),
         (OnEndRequest, demo_thread ''GET'' ''/ping'' (Status_str ''200 OK'') None 4)]
   \<and> run_hook demo_collab OnEndRequest
        (demo_thread ''GET'' ''/ping'' (Status_str ''200 OK'') (Some demo_exc) 3)
        (hook_init demo_globals [])
      = Inr (hook_init demo_globals [],
             demo_thread ''GET'' ''/ping'' (Status_str ''200 OK'') (Some demo_exc) 3, [])
   \<and> run_steps demo_collab
        [(OnStartResource, demo_thread ''GET'' ''/ping'' Status_None None 1),
         (BeforeFinalize, demo_thread ''GET'' ''/ping'' (Status_str ''200 OK'') None 2),
         (OnEndResource, demo_thread ''GET'' ''/ping'' (Status_str ''200 OK'') None 3),
         (AfterErrorResponse, demo_thread ''GET'' ''/ping'' (Status_str ''200 OK'') (Some demo_exc) 3),
         (OnEndRequest, demo_thread ''GET'' ''/ping'' (Status_str ''200 OK'') None 4)]
        (hook_init demo_globals [])
      = (hook_init demo_globals [], [], [])"
proof -
  have p: "\<And>m s e t. otel_excluded_urls (hook_init demo_globals [])
              (path_info (wsgi_environ (demo_thread m ''/ping'' s e t)))"
    by (simp add: demo_hook_config demo_thread_def path_info_def)
  have a: "all_excluded (hook_init demo_globals [])
        [(OnStartResource, demo_thread ''GET'' ''/ping'' Status_None None 1),
         (BeforeFinalize, demo_thread ''GET'' ''/ping'' (Status_str ''200 OK'') None 2),
         (OnEndResource, demo_thread ''GET'' ''/ping'' (Status_str ''200 OK'') None 3),
         (AfterErrorResponse, demo_thread ''GET'' ''/ping'' (Status_str ''200 OK'') (Some demo_exc) 3),
         (OnEndRequest, demo_thread ''GET'' ''/ping'' (Status_str ''200 OK'') None 4)]"
    by (simp add: p)
  from C7_excluded_request_untouched [OF p a, of demo_collab OnEndRequest] p a
  show ?thesis by blast
qed

subsection \<open>C8: callbacks invoked before any request start\<close>

text \<open>
  C8. \<^verbatim>\<open>__init__\<close> does not assign \<^verbatim>\<open>self.span\<close> or \<^verbatim>\<open>self.exception\<close>. On a
  freshly constructed hook, for an eligible request, the response-ready callback reaches
  its test \<^verbatim>\<open>if self.span:\<close> and the request-end callback its test
  \<^verbatim>\<open>if self.exception is None:\<close>, and each raises \<^verbatim>\<open>AttributeError\<close>, having made no
  call and changed nothing.
\<close>

theorem C8_end_callbacks_raise_without_start:
  "eligible (hook_init demo_globals []) (demo_thread ''GET'' ''/hello'' (Status_str ''200 OK'') None 10)
   \<and> on_end_resource_hook demo_collab (demo_thread ''GET'' ''/hello'' (Status_str ''200 OK'') None 10)
        (hook_init demo_globals [])
      = Inl (AttributeError ''span'', hook_init demo_globals [],
             demo_thread ''GET'' ''/hello'' (Status_str ''200 OK'') None 10, [])
   \<and> on_end_request_hook demo_collab (demo_thread ''GET'' ''/hello'' (Status_str ''200 OK'') None 10)
        (hook_init demo_globals [])
      = Inl (AttributeError ''exception'', hook_init demo_globals [],
             demo_thread ''GET'' ''/hello'' (Status_str ''200 OK'') None 10, [])"
proof -
  have unset: "span_attr (hook_init demo_globals []) = None"
    "exception (hook_init demo_globals []) = None"
    by (simp_all add: hook_init_def Let_def)
  have el: "eligible (hook_init demo_globals [])
              (demo_thread ''GET'' ''/hello'' (Status_str ''200 OK'') None 10)"
    by (rule demo_eligible)
  show ?thesis
    using el unset
    by (simp add: on_end_resource_hook_def on_end_request_hook_def eligible_def)
qed

subsection \<open>C9: after uninstallation\<close>

text \<open>
  C9. Uninstallation sets the enabled flag of the tool object to false and changes
  nothing else: \<^verbatim>\<open>cherrypy.expose\<close> stays the instrumenting wrapper and the tool stays
  registered, so wrapped handlers still trigger the callbacks. Every callback invoked
  afterwards, and every sequence of them, returns without raising, leaves the hook
  object and the thread state unchanged and makes no call on the telemetry API.
\<close>

theorem C9_uninstrumented_hook_is_inert:
  "\<not> is_instrumented_by_opentelemetry (otel_tool (uninstrument s))
   \<and> run_hook c cb th (otel_tool (uninstrument s)) = Inr (otel_tool (uninstrument s), th, [])
   \<and> run_steps c steps (otel_tool (uninstrument s)) = (otel_tool (uninstrument s), [], [])
   \<and> cherrypy_expose (uninstrument s) = cherrypy_expose s
   \<and> cherrypy_tools (uninstrument s) = cherrypy_tools s
   \<and> original_expose (uninstrument s) = original_expose s"
proof -
  have off: "\<not> is_instrumented_by_opentelemetry (otel_tool (uninstrument s))"
    by (simp add: uninstrument_def)
  show ?thesis
    using off disabled_noop [OF off] disabled_steps_noop [OF off]
    by (simp add: uninstrument_def)
qed

theorem C9_witness:
  "run_steps demo_collab
     (lifecycle (demo_thread ''GET'' ''/hello'' Status_None None 10)
        [(OnEndResource, demo_thread ''GET'' ''/hello'' (Status_str ''200 OK'') None 10.2)]
        (demo_thread ''GET'' ''/hello'' (Status_str ''200 OK'') None 10.25))
     (otel_tool (uninstrument (instrument demo_globals [] Framework_expose [])))
   = (otel_tool (uninstrument (instrument demo_globals [] Framework_expose [])), [], [])
   \<and> cherrypy_expose (uninstrument (instrument demo_globals [] Framework_expose []))
       = Instrumented_over Framework_expose
   \<and> cherrypy_tools (uninstrument (instrument demo_globals [] Framework_expose []))
       = [TOOL_NAME]"
proof -
  note C9_uninstrumented_hook_is_inert
    [of "instrument demo_globals [] Framework_expose []" demo_collab OnEndRequest
        "demo_thread ''GET'' ''/hello'' (Status_str ''200 OK'') None 10.25"
        "lifecycle (demo_thread ''GET'' ''/hello'' Status_None None 10)
          [(OnEndResource, demo_thread ''GET'' ''/hello'' (Status_str ''200 OK'') None 10.2)]
          (demo_thread ''GET'' ''/hello'' (Status_str ''200 OK'') None 10.25)"]
  moreover have "cherrypy_expose (instrument demo_globals [] Framework_expose [])
       = Instrumented_over Framework_expose"
    "cherrypy_tools (instrument demo_globals [] Framework_expose []) = [TOOL_NAME]"
    by (simp_all add: instrument_def)
  ultimately show ?thesis by metis
qed

subsection \<open>C10: the captured exception does not outlive its request\<close>



end
